theory Spec2Isabelle
  imports Main "HOL-Library.Sublist"
begin

section \<open>Python strings\<close>

text \<open>
  A Python \<open>str\<close> is modelled as a \<^typ>\<open>string\<close>, a list of 8-bit characters.
  The model is exact on ASCII text: case conversion, white space and word characters are
  those of ASCII. A code point beyond ASCII that occurs in a literal of the source is
  written as its UTF-8 bytes. There are two kinds of them: the pictographs at the head of
  the four recommendation texts, which the source only returns, and the bullet and the
  arrow of the schema summaries, which have no case and are neither white space nor word
  characters, as their bytes are here. Source names that start with an underscore lose it
  here (\<open>_analyze_safety\<close> is \<open>analyze_safety\<close>), since an Isabelle name cannot start
  with one.
\<close>

definition ascii_lowercase :: string where
  "ascii_lowercase = ''abcdefghijklmnopqrstuvwxyz''"

definition ascii_uppercase :: string where
  "ascii_uppercase = ''ABCDEFGHIJKLMNOPQRSTUVWXYZ''"

definition digits :: string where
  "digits = ''0123456789''"

definition isspace :: "char \<Rightarrow> bool" where
  \<comment> \<open>\<open>str.isspace\<close> on ASCII: TAB, LF, VT, FF, CR, FS, GS, RS, US and the blank.\<close>
  "isspace c = (c \<in> set [CHR 0x09, CHR 0x0A, CHR 0x0B, CHR 0x0C, CHR 0x0D,
                           CHR 0x1C, CHR 0x1D, CHR 0x1E, CHR 0x1F, CHR 0x20])"

definition isword :: "char \<Rightarrow> bool" where
  \<comment> \<open>the class \<open>\w\<close> on ASCII: letters, digits and the underscore.\<close>
  "isword c = (c \<in> set (ascii_lowercase @ ascii_uppercase @ digits @ ''_''))"

definition upper_char :: "char \<Rightarrow> char" where
  \<comment> \<open>a to z become A to Z; every other character stays\<close>
  "upper_char c = (case map_of (zip ascii_lowercase ascii_uppercase) c of None \<Rightarrow> c | Some u \<Rightarrow> u)"

definition lower_char :: "char \<Rightarrow> char" where
  \<comment> \<open>A to Z become a to z; every other character stays\<close>
  "lower_char c = (case map_of (zip ascii_uppercase ascii_lowercase) c of None \<Rightarrow> c | Some l \<Rightarrow> l)"

definition upper :: "string \<Rightarrow> string" where
  "upper s = map upper_char s"

definition lower :: "string \<Rightarrow> string" where
  "lower s = map lower_char s"

definition lstrip :: "string \<Rightarrow> string" where
  "lstrip s = dropWhile isspace s"

definition rstrip :: "string \<Rightarrow> string" where
  "rstrip s = rev (dropWhile isspace (rev s))"

definition strip :: "string \<Rightarrow> string" where
  "strip s = rstrip (lstrip s)"

fun startswith :: "string \<Rightarrow> string \<Rightarrow> bool" where
  \<comment> \<open>\<open>s.startswith(p)\<close>\<close>
  "startswith s [] = True"
| "startswith [] (p # ps) = False"
| "startswith (c # cs) (p # ps) = (c = p \<and> startswith cs ps)"

fun contains :: "string \<Rightarrow> string \<Rightarrow> bool" where
  \<comment> \<open>\<open>sub in s\<close>\<close>
  "contains [] sub = (sub = [])"
| "contains (c # cs) sub = (startswith (c # cs) sub \<or> contains cs sub)"

definition contains_any :: "string \<Rightarrow> string list \<Rightarrow> bool" where
  \<comment> \<open>\<open>any(kw in s for kw in kws)\<close>\<close>
  "contains_any s kws = list_ex (contains s) kws"

definition startswith_any :: "string \<Rightarrow> string list \<Rightarrow> bool" where
  \<comment> \<open>\<open>s.startswith((p1, ..., pn))\<close>\<close>
  "startswith_any s ps = list_ex (startswith s) ps"

section \<open>The safety classifier\<close>

record safety =
  level :: string
  recommendation :: string
  warnings :: "string option"

definition dangerous_keywords :: "string list" where
  "dangerous_keywords = [''DROP'', ''TRUNCATE'']"

definition modify_keywords :: "string list" where
  "modify_keywords = [''DELETE'', ''UPDATE'', ''INSERT'', ''ALTER'', ''CREATE'']"

definition safe_prefixes :: "string list" where
  "safe_prefixes = [''SELECT'', ''SHOW'', ''WITH'']"

definition dangerous_verdict :: safety where
  "dangerous_verdict = \<lparr>
     level = ''dangerous'',
     recommendation =
       [CHR 0xC3, CHR 0xB0, CHR 0xC5, CHR 0xB8, CHR 0xE2, CHR 0x80, CHR 0xBA, CHR 0xE2, CHR 0x80, CHR 0x98] @
       '' DANGEROUS: This will permanently delete data or structure. Triple-check before executing!'',
     warnings = Some ''This operation cannot be undone. Make sure you have a backup.'' \<rparr>"

definition modify_verdict :: safety where
  "modify_verdict = \<lparr>
     level = ''modify'',
     recommendation =
       [CHR 0xC3, CHR 0xA2, CHR 0xC5, CHR 0xA1, CHR 0xC2, CHR 0xA0, CHR 0xC3, CHR 0xAF, CHR 0xC2, CHR 0xB8] @
       '' CAUTION: This will modify data or structure. Review carefully before executing.'',
     warnings = Some ''Ensure you have reviewed the impact of this change.'' \<rparr>"

definition safe_verdict :: safety where
  "safe_verdict = \<lparr>
     level = ''safe'',
     recommendation =
       [CHR 0xC3, CHR 0xA2, CHR 0xC5, CHR 0x93, CHR 0xE2, CHR 0x80, CHR 0xA6] @
       '' SAFE: Read-only query. Safe to execute.'',
     warnings = None \<rparr>"

definition unknown_verdict :: safety where
  "unknown_verdict = \<lparr>
     level = ''unknown'',
     recommendation =
       [CHR 0xC3, CHR 0xA2, CHR 0xE2, CHR 0x80, CHR 0x9C] @
       '' UNKNOWN: Unable to determine query type. Proceed with caution.'',
     warnings = Some ''Review the query carefully before executing.'' \<rparr>"

definition analyze_safety :: "string \<Rightarrow> safety" where
  "analyze_safety sql =
     (let sql_upper = strip (upper sql) in
      if contains_any sql_upper dangerous_keywords then dangerous_verdict
      else if contains_any sql_upper modify_keywords then modify_verdict
      else if startswith_any sql_upper safe_prefixes then safe_verdict
      else unknown_verdict)"

text \<open>
  From the spec's words, for comparison with the classifier: a keyword occurs in a text
  ``as a whole keyword'' when an occurrence is not part of a longer word, that is, when no
  word character stands directly before or after it.
\<close>

fun keyword_from :: "bool \<Rightarrow> string \<Rightarrow> string \<Rightarrow> bool" where
  \<comment> \<open>\<open>boundary\<close>: no word character stands directly before the text that is left\<close>
  "keyword_from boundary [] kw = (boundary \<and> kw = [])"
| "keyword_from boundary (c # cs) kw =
     ((boundary \<and> startswith (c # cs) kw \<and>
        (case drop (length kw) (c # cs) of [] \<Rightarrow> True | d # _ \<Rightarrow> \<not> isword d))
      \<or> keyword_from (\<not> isword c) cs kw)"

definition contains_whole_keyword :: "string \<Rightarrow> string \<Rightarrow> bool" where
  "contains_whole_keyword s kw = keyword_from True s kw"

section \<open>Regular expressions\<close>

text \<open>
  The fragment of Python's \<open>re\<close> that the four extraction patterns use. \<open>rmatch r (s, g)\<close>
  lists every way \<open>r\<close> can match a prefix of \<open>s\<close>, as the rest of the input and the
  text of group 1, in the order in which the backtracking matcher tries them: a greedy
  repetition gives its longest run first, an optional part is tried before it is skipped,
  and the alternatives of \<open>|\<close> are tried from left to right. \<open>search\<close> is
  \<open>re.search\<close>: the first way at the leftmost position that has one.
\<close>

datatype cclass = Space | Word | Quote

datatype regex =
    Lit string
  | Cls cclass
  | Plus cclass
  | Opt regex
  | Alt regex regex
  | Seq regex regex
  | Group regex

fun in_class :: "cclass \<Rightarrow> char \<Rightarrow> bool" where
  "in_class Space c = isspace c"
| "in_class Word c = isword c"
| "in_class Quote c = (c = CHR 0x22 \<or> c = CHR 0x27 \<or> c = CHR 0x60)"

fun rmatch :: "regex \<Rightarrow> string \<times> string option \<Rightarrow> (string \<times> string option) list" where
  "rmatch (Lit l) (s, g) = (if startswith s l then [(drop (length l) s, g)] else [])"
| "rmatch (Cls k) (s, g) =
     (case s of [] \<Rightarrow> [] | c # cs \<Rightarrow> if in_class k c then [(cs, g)] else [])"
| "rmatch (Plus k) (s, g) =
     map (\<lambda>n. (drop n s, g)) (rev [1 ..< Suc (length (takeWhile (in_class k) s))])"
| "rmatch (Opt r) (s, g) = rmatch r (s, g) @ [(s, g)]"
| "rmatch (Alt a b) (s, g) = rmatch a (s, g) @ rmatch b (s, g)"
| "rmatch (Seq a b) (s, g) = concat (map (rmatch b) (rmatch a (s, g)))"
| "rmatch (Group r) (s, g) =
     map (\<lambda>(s', g'). (s', Some (take (length s - length s') s))) (rmatch r (s, g))"

fun search :: "regex \<Rightarrow> string \<Rightarrow> string option option" where
  \<comment> \<open>\<open>None\<close>: no match; \<open>Some g\<close>: a match whose \<open>group(1)\<close> is \<open>g\<close>.\<close>
  "search r [] = (case rmatch r ([], None) of [] \<Rightarrow> None | (_, g) # _ \<Rightarrow> Some g)"
| "search r (c # cs) =
     (case rmatch r (c # cs, None) of [] \<Rightarrow> search r cs | (_, g) # _ \<Rightarrow> Some g)"

section \<open>The intent classifier\<close>

text \<open>
  The four patterns of \<open>_extract_table_name\<close>, in the source's order:
  \<^verbatim>\<open>(?:table|from|in|for|of)\s+["'`]?(\w+)["'`]?\<close>,
  \<^verbatim>\<open>["'`](\w+)["'`]\s+table\<close>,
  \<^verbatim>\<open>describe\s+(\w+)\<close> and
  \<^verbatim>\<open>columns?\s+(?:in|of|for)\s+(\w+)\<close>.
\<close>

definition patterns :: "regex list" where
  "patterns = [
     Seq (Alt (Lit ''table'') (Alt (Lit ''from'') (Alt (Lit ''in'') (Alt (Lit ''for'') (Lit ''of'')))))
       (Seq (Plus Space) (Seq (Opt (Cls Quote)) (Seq (Group (Plus Word)) (Opt (Cls Quote))))),
     Seq (Cls Quote) (Seq (Group (Plus Word)) (Seq (Cls Quote) (Seq (Plus Space) (Lit ''table'')))),
     Seq (Lit ''describe'') (Seq (Plus Space) (Group (Plus Word))),
     Seq (Lit ''column'') (Seq (Opt (Lit ''s'')) (Seq (Plus Space)
       (Seq (Alt (Lit ''in'') (Alt (Lit ''of'') (Lit ''for''))) (Seq (Plus Space) (Group (Plus Word))))))
   ]"

definition stop_words :: "string list" where
  "stop_words = [''table'', ''from'', ''in'', ''for'', ''of'', ''the'', ''a'', ''an'']"

fun first_table_name :: "regex list \<Rightarrow> string \<Rightarrow> string option" where
  \<comment> \<open>the loop over the patterns; a match whose group is a stop word goes on to the next pattern\<close>
  "first_table_name [] query = None"
| "first_table_name (pattern # rest) query =
     (case search pattern query of
        None \<Rightarrow> first_table_name rest query
      | Some None \<Rightarrow> None
      | Some (Some table_name) \<Rightarrow>
          if table_name \<notin> set stop_words then Some table_name
          else first_table_name rest query)"

definition extract_table_name :: "string \<Rightarrow> string option" where
  "extract_table_name query = first_table_name patterns query"

text \<open>
  The dictionary of an intent. Only a \<open>describe_table\<close> intent has the key \<open>table\<close>;
  the field is what \<open>intent.get('table')\<close> gives, \<open>None\<close> when the key is missing.
\<close>

record intent =
  type :: string
  explanation :: string
  table :: "string option"

definition analyze_intent :: "string \<Rightarrow> intent" where
  "analyze_intent query =
     (let query_lower = strip (lower query) in
      if contains_any query_lower [''show tables'', ''list tables'', ''what tables'', ''all tables''] then
        \<lparr>type = ''list_tables'', explanation = ''List all tables in the database'', table = None\<rparr>
      else if contains_any query_lower
          [''describe'', ''table structure'', ''columns in'', ''show columns'', ''schema of''] then
        (let table = extract_table_name query_lower in
         \<lparr>type = ''describe_table'',
          explanation = (case table of
             None \<Rightarrow> ''Show table structure''
           | Some t \<Rightarrow> if t = [] then ''Show table structure'' else ''Show structure of table: '' @ t),
          table = table\<rparr>)
      else if contains_any query_lower [''show indexes'', ''list indexes'', ''what indexes'', ''all indexes''] then
        \<lparr>type = ''list_indexes'', explanation = ''List all indexes in the database'', table = None\<rparr>
      else if contains_any query_lower [''foreign key'', ''relationships'', ''references'', ''constraints''] then
        \<lparr>type = ''foreign_keys'', explanation = ''Show foreign key relationships'', table = None\<rparr>
      else if contains_any query_lower [''table size'', ''table sizes'', ''disk usage'', ''space used''] then
        \<lparr>type = ''table_sizes'', explanation = ''Show table sizes sorted by disk usage'', table = None\<rparr>
      else if contains_any query_lower [''database size'', ''db size'', ''total size''] then
        \<lparr>type = ''database_size'', explanation = ''Show total database size'', table = None\<rparr>
      else if contains_any query_lower [''row count'', ''table rows'', ''count rows'', ''how many rows''] then
        \<lparr>type = ''row_counts'', explanation = ''Show row counts for all tables'', table = None\<rparr>
      else if contains_any query_lower
          [''connections'', ''active sessions'', ''who is connected'', ''connected users''] then
        \<lparr>type = ''connections'', explanation = ''Show active database connections'', table = None\<rparr>
      else if contains_any query_lower [''running queries'', ''active queries'', ''current queries''] then
        \<lparr>type = ''active_queries'', explanation = ''Show currently running queries'', table = None\<rparr>
      else if contains_any query_lower [''statistics'', ''stats'', ''table stats''] then
        \<lparr>type = ''statistics'', explanation = ''Show database statistics'', table = None\<rparr>
      else if startswith_any query_lower [''select'', ''show me'', ''get'', ''find'', ''list all''] then
        \<lparr>type = ''data_query'', explanation = ''Retrieve data from database'', table = None\<rparr>
      else if startswith_any query_lower
          [''update'', ''delete'', ''insert'', ''create'', ''alter'', ''drop''] then
        \<lparr>type = ''modification'', explanation = ''Modify database structure or data'', table = None\<rparr>
      else
        \<lparr>type = ''unknown'', explanation = ''General database query'', table = None\<rparr>)"


definition intent_kinds :: "string list" where
  \<comment> \<open>the thirteen tags that \<open>analyze_intent\<close> gives\<close>
  "intent_kinds = [''list_tables'', ''describe_table'', ''list_indexes'', ''foreign_keys'',
     ''table_sizes'', ''database_size'', ''row_counts'', ''connections'', ''active_queries'',
     ''statistics'', ''data_query'', ''modification'', ''unknown'']"

section \<open>The SQL synthesizer\<close>

datatype py_error = IndexError | Exception string

definition truthy :: "string option \<Rightarrow> bool" where
  \<comment> \<open>whether an optional string counts as true: it is neither \<open>None\<close> nor empty\<close>
  "truthy x = (case x of None \<Rightarrow> False | Some s \<Rightarrow> s \<noteq> [])"

fun split_skip :: "string \<Rightarrow> nat \<Rightarrow> string \<Rightarrow> string \<Rightarrow> string list" where
  \<comment> \<open>the scan of \<open>s.split(sep)\<close>: \<open>acc\<close> is the current piece, reversed, and \<open>k\<close> counts
      the characters of a separator just found that are still to be passed over\<close>
  "split_skip sep k acc [] = [rev acc]"
| "split_skip sep (Suc k) acc (c # cs) = split_skip sep k acc cs"
| "split_skip sep 0 acc (c # cs) =
     (if startswith (c # cs) sep then rev acc # split_skip sep (length sep - 1) [] cs
      else split_skip sep 0 (c # acc) cs)"

definition split_str :: "string \<Rightarrow> string \<Rightarrow> string list" where
  \<comment> \<open>\<open>s.split(sep)\<close> for a separator that is not empty\<close>
  "split_str sep s = split_skip sep 0 [] s"

fun split_words :: "string \<Rightarrow> string \<Rightarrow> string list" where
  \<comment> \<open>the scan of \<open>s.split()\<close>: \<open>acc\<close> is the current word, reversed\<close>
  "split_words acc [] = (if acc = [] then [] else [rev acc])"
| "split_words acc (c # cs) =
     (if isspace c then (if acc = [] then split_words [] cs else rev acc # split_words [] cs)
      else split_words (c # acc) cs)"

definition split_ws :: "string \<Rightarrow> string list" where
  \<comment> \<open>\<open>s.split()\<close>\<close>
  "split_ws s = split_words [] s"

fun table_names_loop :: "string list \<Rightarrow> string list \<Rightarrow> py_error + string list" where
  "table_names_loop [] tables = Inr tables"
| "table_names_loop (line # rest) tables =
     (if contains line ''Table:'' then
        (let parts = split_str ''Table:'' line in
         if length parts > 1 then
           (case split_ws (parts ! 1) of
              [] \<Rightarrow> Inl IndexError
            | w # _ \<Rightarrow> table_names_loop rest (tables @ [strip w]))
         else table_names_loop rest tables)
      else table_names_loop rest tables)"

definition extract_table_names_from_schema :: "string \<Rightarrow> py_error + string list" where
  "extract_table_names_from_schema schema = table_names_loop (split_str ''\<newline>'' schema) []"

definition construct_select_query :: "string \<Rightarrow> string \<Rightarrow> py_error + string option" where
  "construct_select_query query schema =
     (let query_lower = lower query in
      case extract_table_names_from_schema schema of
        Inl e \<Rightarrow> Inl e
      | Inr tables \<Rightarrow>
          (case find (\<lambda>t. contains query_lower (lower t)) tables of
             None \<Rightarrow> Inr None
           | Some t \<Rightarrow>
               if t = [] then Inr None
               else
                 (let sql = ''SELECT * FROM '' @ t;
                      sql = (if contains_any query_lower [''where'', ''with'', ''having'']
                             then sql @ ''\<newline>-- Add WHERE clause as needed'' else sql);
                      sql = (if \<not> contains query_lower ''limit'' \<and> \<not> contains query_lower ''all''
                             then sql @ ''\<newline>LIMIT 100'' else sql)
                  in Inr (Some (sql @ '';'')))))"

definition list_tables_sql :: string where
  "list_tables_sql =
     ''SELECT \<newline>'' @
     ''    schemaname,\<newline>'' @
     ''    tablename,\<newline>'' @
     ''    tableowner\<newline>'' @
     ''FROM pg_tables \<newline>'' @
     ''WHERE schemaname = 'public' \<newline>'' @
     ''ORDER BY tablename;''"

definition describe_table_sql :: "string \<Rightarrow> string" where
  "describe_table_sql tbl =
     ''SELECT \<newline>'' @
     ''    column_name,\<newline>'' @
     ''    data_type,\<newline>'' @
     ''    character_maximum_length,\<newline>'' @
     ''    is_nullable,\<newline>'' @
     ''    column_default\<newline>'' @
     ''FROM information_schema.columns \<newline>'' @
     ''WHERE table_schema = 'public' \<newline>'' @
     ''AND table_name = '' @
     [CHR 0x27] @
     tbl @
     [CHR 0x27] @
     ''\<newline>'' @
     ''ORDER BY ordinal_position;''"

definition list_indexes_sql :: string where
  "list_indexes_sql =
     ''SELECT \<newline>'' @
     ''    schemaname,\<newline>'' @
     ''    tablename,\<newline>'' @
     ''    indexname,\<newline>'' @
     ''    indexdef\<newline>'' @
     ''FROM pg_indexes \<newline>'' @
     ''WHERE schemaname = 'public' \<newline>'' @
     ''ORDER BY tablename, indexname;''"

definition foreign_keys_sql :: string where
  "foreign_keys_sql =
     ''SELECT\<newline>'' @
     ''    tc.table_name AS from_table,\<newline>'' @
     ''    kcu.column_name AS from_column,\<newline>'' @
     ''    ccu.table_name AS to_table,\<newline>'' @
     ''    ccu.column_name AS to_column,\<newline>'' @
     ''    tc.constraint_name\<newline>'' @
     ''FROM information_schema.table_constraints AS tc\<newline>'' @
     ''JOIN information_schema.key_column_usage AS kcu\<newline>'' @
     ''    ON tc.constraint_name = kcu.constraint_name\<newline>'' @
     ''    AND tc.table_schema = kcu.table_schema\<newline>'' @
     ''JOIN information_schema.constraint_column_usage AS ccu\<newline>'' @
     ''    ON ccu.constraint_name = tc.constraint_name\<newline>'' @
     ''    AND ccu.table_schema = tc.table_schema\<newline>'' @
     ''WHERE tc.constraint_type = 'FOREIGN KEY'' @
     [CHR 0x27] @
     ''\<newline>'' @
     ''AND tc.table_schema = 'public'' @
     [CHR 0x27] @
     ''\<newline>'' @
     ''ORDER BY tc.table_name, tc.constraint_name;''"

definition table_sizes_sql :: string where
  "table_sizes_sql =
     ''SELECT \<newline>'' @
     ''    schemaname,\<newline>'' @
     ''    tablename,\<newline>'' @
     ''    pg_size_pretty(pg_total_relation_size(schemaname||'.'||tablename)) AS total_size,\<newline>'' @
     ''    pg_size_pretty(pg_relation_size(schemaname||'.'||tablename)) AS table_size,\<newline>'' @
     ''    pg_size_pretty(pg_total_relation_size(schemaname||'.'||tablename) - pg_relation_size(schemaname||'.'||tablename)) AS indexes_size,\<newline>'' @
     ''    pg_total_relation_size(schemaname||'.'||tablename) AS bytes\<newline>'' @
     ''FROM pg_tables \<newline>'' @
     ''WHERE schemaname = 'public' \<newline>'' @
     ''ORDER BY pg_total_relation_size(schemaname||'.'||tablename) DESC;''"

definition database_size_sql :: string where
  "database_size_sql =
     ''SELECT \<newline>'' @
     ''    current_database() AS database_name,\<newline>'' @
     ''    pg_size_pretty(pg_database_size(current_database())) AS size;''"

definition row_counts_sql :: string where
  "row_counts_sql =
     ''SELECT \<newline>'' @
     ''    schemaname,\<newline>'' @
     ''    relname AS table_name,\<newline>'' @
     ''    n_live_tup AS row_count,\<newline>'' @
     ''    n_dead_tup AS dead_rows\<newline>'' @
     ''FROM pg_stat_user_tables \<newline>'' @
     ''WHERE schemaname = 'public' \<newline>'' @
     ''ORDER BY n_live_tup DESC;''"

definition connections_sql :: string where
  "connections_sql =
     ''SELECT \<newline>'' @
     ''    datname AS database,\<newline>'' @
     ''    usename AS user,\<newline>'' @
     ''    application_name,\<newline>'' @
     ''    client_addr,\<newline>'' @
     ''    state,\<newline>'' @
     ''    COUNT(*) AS connection_count\<newline>'' @
     ''FROM pg_stat_activity \<newline>'' @
     ''WHERE datname = current_database()\<newline>'' @
     ''GROUP BY datname, usename, application_name, client_addr, state\<newline>'' @
     ''ORDER BY connection_count DESC;''"

definition active_queries_sql :: string where
  "active_queries_sql =
     ''SELECT \<newline>'' @
     ''    pid,\<newline>'' @
     ''    usename AS user,\<newline>'' @
     ''    datname AS database,\<newline>'' @
     ''    state,\<newline>'' @
     ''    query_start,\<newline>'' @
     ''    LEFT(query, 100) AS query_preview\<newline>'' @
     ''FROM pg_stat_activity \<newline>'' @
     ''WHERE state = 'active'' @
     [CHR 0x27] @
     ''\<newline>'' @
     ''AND query NOT LIKE '%pg_stat_activity%'' @
     [CHR 0x27] @
     ''\<newline>'' @
     ''ORDER BY query_start;''"

definition statistics_sql :: string where
  "statistics_sql =
     ''SELECT \<newline>'' @
     ''    schemaname,\<newline>'' @
     ''    relname AS table_name,\<newline>'' @
     ''    seq_scan AS sequential_scans,\<newline>'' @
     ''    seq_tup_read AS rows_read_seq,\<newline>'' @
     ''    idx_scan AS index_scans,\<newline>'' @
     ''    idx_tup_fetch AS rows_fetched_idx,\<newline>'' @
     ''    n_tup_ins AS inserts,\<newline>'' @
     ''    n_tup_upd AS updates,\<newline>'' @
     ''    n_tup_del AS deletes\<newline>'' @
     ''FROM pg_stat_user_tables \<newline>'' @
     ''WHERE schemaname = 'public' \<newline>'' @
     ''ORDER BY relname;''"

definition generate_sql :: "string \<Rightarrow> intent \<Rightarrow> string \<Rightarrow> py_error + string option" where
  "generate_sql query intent schema =
     (let intent_type = type intent in
      if intent_type = ''list_tables'' then Inr (Some list_tables_sql)
      else if intent_type = ''describe_table'' then
        (case (if truthy (table intent) then table intent else extract_table_name (lower query)) of
           None \<Rightarrow> Inr None
         | Some t \<Rightarrow> if t = [] then Inr None else Inr (Some (describe_table_sql t)))
      else if intent_type = ''list_indexes'' then Inr (Some list_indexes_sql)
      else if intent_type = ''foreign_keys'' then Inr (Some foreign_keys_sql)
      else if intent_type = ''table_sizes'' then Inr (Some table_sizes_sql)
      else if intent_type = ''database_size'' then Inr (Some database_size_sql)
      else if intent_type = ''row_counts'' then Inr (Some row_counts_sql)
      else if intent_type = ''connections'' then Inr (Some connections_sql)
      else if intent_type = ''active_queries'' then Inr (Some active_queries_sql)
      else if intent_type = ''statistics'' then Inr (Some statistics_sql)
      else if intent_type = ''data_query'' then construct_select_query query schema
      else Inr None)"

definition get_suggestions :: "string \<Rightarrow> string list" where
  "get_suggestions failed_query = [
     (''Try: 'Show all tables'' @ [CHR 0x27]),
     (''Try: 'Show table sizes'' @ [CHR 0x27]),
     (''Try: 'List all indexes'' @ [CHR 0x27]),
     (''Try: 'Describe table actor'' @ [CHR 0x27]),
     (''Try: 'Show database size'' @ [CHR 0x27]),
     (''Try: 'Show active connections'' @ [CHR 0x27]),
     (''Try: 'Show row counts'' @ [CHR 0x27]),
     (''Try: 'Show foreign keys'' @ [CHR 0x27])]"

section \<open>Processing a request\<close>

record agent =
  db_name :: string
  schema_context :: "string option"

definition load_schema_context :: "(py_error + string) \<Rightarrow> agent \<Rightarrow> string \<times> agent" where
  \<comment> \<open>\<open>extracted\<close> is what the call \<open>extract_schema_compact()\<close> gives: a summary, or an exception\<close>
  "load_schema_context extracted a =
     (let loaded = (case extracted of Inr s \<Rightarrow> s | Inl e \<Rightarrow> ''Schema unavailable'') in
      case schema_context a of
        None \<Rightarrow> (loaded, a\<lparr>schema_context := Some loaded\<rparr>)
      | Some s \<Rightarrow> if s = [] then (loaded, a\<lparr>schema_context := Some loaded\<rparr>) else (s, a))"

text \<open>
  The dictionary that \<open>process_query\<close> returns: \<open>Failure\<close> is the one with \<open>success\<close>
  false, an error text and the suggestions; \<open>Success\<close> is the one with \<open>success\<close> true and
  the keys \<open>sql\<close>, \<open>explanation\<close>, \<open>safety_level\<close>, \<open>recommendation\<close>, \<open>warnings\<close>
  and \<open>intent_type\<close>. The agent keeps the summary it has loaded, so the agent is returned
  too. An exception of the table lookup is not caught in \<open>process_query\<close>.
\<close>

datatype response =
    Failure (r_error: string) (r_suggestions: "string list")
  | Success (r_sql: string) (r_explanation: string) (r_safety_level: string)
      (r_recommendation: string) (r_warnings: "string option") (r_intent_type: string)

definition process_query ::
  "(py_error + string) \<Rightarrow> agent \<Rightarrow> string \<Rightarrow> (py_error + response) \<times> agent" where
  "process_query extracted a natural_language_query =
     (let (schema, a') = load_schema_context extracted a;
          intent = analyze_intent natural_language_query
      in case generate_sql natural_language_query intent schema of
           Inl e \<Rightarrow> (Inl e, a')
         | Inr sql \<Rightarrow>
             if \<not> truthy sql then
               (Inr (Failure ''Could not generate SQL query. Please rephrase your request.''
                       (get_suggestions natural_language_query)), a')
             else
               (let safety = analyze_safety (the sql)
                in (Inr (Success (the sql) (explanation intent) (level safety)
                           (recommendation safety) (warnings safety) (type intent)), a')))"


section \<open>The schema extractor\<close>

text \<open>
  The methods of \<open>SchemaExtractor\<close> that query the database are collaborators: the
  record \<open>catalog\<close> holds what each of them returns. \<open>get_table_details\<close>,
  \<open>format_data_type\<close> and the two summaries are modelled on top of them.
\<close>

record column_row =
  name :: string
  data_type :: string
  max_length :: "int option"
  precision :: "int option"
  scale :: "int option"
  nullable :: bool
  col_default :: "string option"
  udt_name :: string

record column = column_row +
  is_primary_key :: bool
  is_foreign_key :: bool
  references :: "string option"
  on_update :: "string option"
  on_delete :: "string option"
  is_unique :: bool

record index_info =
  idx_name :: string
  idx_columns :: "string list"
  idx_unique :: bool
  idx_primary :: bool
  idx_type :: string

type_synonym fk_info = "string \<times> string \<times> string \<times> string"

record catalog =
  get_all_tables :: "string list"
  get_primary_keys :: "string \<Rightarrow> string list"
  get_foreign_keys :: "string \<Rightarrow> (string \<rightharpoonup> fk_info)"
  get_unique_constraints :: "string \<Rightarrow> string list list"
  get_indexes :: "string \<Rightarrow> index_info list"
  get_column_info :: "string \<Rightarrow> column_row list"
  get_table_row_count :: "string \<Rightarrow> int"

record table_details =
  table_name :: string
  row_count :: int
  columns :: "column list"
  primary_keys :: "string list"
  foreign_keys :: "string \<rightharpoonup> fk_info"
  unique_constraints :: "string list list"
  indexes :: "index_info list"

definition enrich :: "string list \<Rightarrow> (string \<rightharpoonup> fk_info) \<Rightarrow> string list list \<Rightarrow> column_row \<Rightarrow> column" where
  \<comment> \<open>the body of the loop of \<open>get_table_details\<close> over the columns\<close>
  "enrich pk_columns fk_columns uniques col =
     \<lparr>name = name col, data_type = data_type col, max_length = max_length col,
      precision = precision col, scale = scale col, nullable = nullable col,
      col_default = col_default col, udt_name = udt_name col,
      is_primary_key = (name col \<in> set pk_columns),
      is_foreign_key = (fk_columns (name col) \<noteq> None),
      references = (case fk_columns (name col) of
          None \<Rightarrow> None | Some (ref_table, ref_col, upd, del) \<Rightarrow> Some (ref_table @ ''.'' @ ref_col)),
      on_update = (case fk_columns (name col) of
          None \<Rightarrow> None | Some (ref_table, ref_col, upd, del) \<Rightarrow> Some upd),
      on_delete = (case fk_columns (name col) of
          None \<Rightarrow> None | Some (ref_table, ref_col, upd, del) \<Rightarrow> Some del),
      is_unique = list_ex (\<lambda>uc. name col \<in> set uc) uniques\<rparr>"

definition get_table_details :: "catalog \<Rightarrow> string \<Rightarrow> table_details" where
  "get_table_details db tbl =
     (let pk_columns = get_primary_keys db tbl;
          fk_columns = get_foreign_keys db tbl;
          uniques = get_unique_constraints db tbl
      in \<lparr>table_name = tbl,
          row_count = get_table_row_count db tbl,
          columns = map (enrich pk_columns fk_columns uniques) (get_column_info db tbl),
          primary_keys = pk_columns,
          foreign_keys = fk_columns,
          unique_constraints = uniques,
          indexes = get_indexes db tbl\<rparr>)"

fun str_nat :: "nat \<Rightarrow> string" where
  \<comment> \<open>\<open>str(n)\<close> for \<open>n \<ge> 0\<close>\<close>
  "str_nat n = (if n < 10 then [char_of (48 + n)] else str_nat (n div 10) @ [char_of (48 + n mod 10)])"

declare str_nat.simps [simp del]

definition str_int :: "int \<Rightarrow> string" where
  "str_int i = (if i < 0 then ''-'' @ str_nat (nat (- i)) else str_nat (nat i))"

fun group3 :: "string \<Rightarrow> string" where
  \<comment> \<open>a comma after every third digit of a reversed numeral that has more digits\<close>
  "group3 (a # b # c # d # r) = a # b # c # CHR '','' # group3 (d # r)"
| "group3 r = r"

definition fmt_thousands :: "int \<Rightarrow> string" where
  \<comment> \<open>the format \<open>{n:,}\<close>\<close>
  "fmt_thousands i =
     (if i < 0 then ''-'' @ rev (group3 (rev (str_nat (nat (- i)))))
      else rev (group3 (rev (str_nat (nat i)))))"

fun join :: "string \<Rightarrow> string list \<Rightarrow> string" where
  \<comment> \<open>\<open>sep.join(xs)\<close>\<close>
  "join sep [] = []"
| "join sep [x] = x"
| "join sep (x # y # ys) = x @ sep @ join sep (y # ys)"

definition int_truthy :: "int option \<Rightarrow> bool" where
  "int_truthy x = (case x of None \<Rightarrow> False | Some i \<Rightarrow> i \<noteq> 0)"

definition type_mapping :: "(string \<times> string) list" where
  "type_mapping = [
     (''character varying'', ''varchar''),
     (''character'', ''char''),
     (''timestamp without time zone'', ''timestamp''),
     (''timestamp with time zone'', ''timestamptz''),
     (''double precision'', ''float8''),
     (''integer'', ''int''),
     (''bigint'', ''bigint''),
     (''smallint'', ''smallint'')]"

definition format_data_type :: "column \<Rightarrow> string" where
  "format_data_type col_info =
     (let dtype = (case map_of type_mapping (data_type col_info) of
                     None \<Rightarrow> data_type col_info | Some t \<Rightarrow> t)
      in if int_truthy (max_length col_info) then
           dtype @ ''('' @ str_int (the (max_length col_info)) @ '')''
         else if int_truthy (precision col_info) then
           (if int_truthy (scale col_info) then
              dtype @ ''('' @ str_int (the (precision col_info)) @ '','' @
                str_int (the (scale col_info)) @ '')''
            else dtype @ ''('' @ str_int (the (precision col_info)) @ '')'')
         else dtype)"

definition bullet :: string where
  \<comment> \<open>U+2022\<close>
  "bullet = [CHR 0xE2, CHR 0x80, CHR 0xA2]"

definition arrow :: string where
  \<comment> \<open>U+2192\<close>
  "arrow = [CHR 0xE2, CHR 0x86, CHR 0x92]"

definition first_part :: "string \<Rightarrow> string \<Rightarrow> string" where
  \<comment> \<open>\<open>s.split(sep)[0]\<close>; a split has at least one part\<close>
  "first_part sep s = (case split_str sep s of [] \<Rightarrow> [] | p # _ \<Rightarrow> p)"

definition compact_column :: "column \<Rightarrow> string" where
  "compact_column col =
     (let dtype = format_data_type col;
          markers = (if is_primary_key col then [''PK''] else []) @
                    (if is_foreign_key col
                     then [''FK'' @ arrow @ first_part ''.'' (the (references col))] else []);
          marker_str = (if markers \<noteq> [] then '' ['' @ join '','' markers @ '']'' else [])
      in name col @ '':'' @ dtype @ marker_str)"

definition compact_table_line :: "catalog \<Rightarrow> string \<Rightarrow> string" where
  "compact_table_line db tbl =
     (let details = get_table_details db tbl
      in ''  '' @ bullet @ '' '' @ tbl @ '': '' @ join '', '' (map compact_column (columns details)))"

definition extract_schema_compact :: "string \<Rightarrow> catalog \<Rightarrow> string" where
  "extract_schema_compact dbn db =
     (let tables = get_all_tables db in
      if tables = [] then ''Database '' @ [CHR 0x27] @ dbn @ [CHR 0x27] @ '': No tables found.''
      else join ''\<newline>''
        ((''Database '' @ [CHR 0x27] @ dbn @ [CHR 0x27] @ '' - '' @ str_nat (length tables) @ '' tables:'')
         # map (compact_table_line db) tables))"

definition full_column_line :: "column \<Rightarrow> string" where
  "full_column_line col =
     (let dtype = format_data_type col;
          nullable_str = (if nullable col then ''NULL'' else ''NOT NULL'');
          constraints =
            (if is_primary_key col then [''PRIMARY KEY''] else []) @
            (if is_foreign_key col then [''FK '' @ arrow @ '' '' @ the (references col)] else []) @
            (if is_unique col \<and> \<not> is_primary_key col then [''UNIQUE''] else []);
          constraint_str = (if constraints \<noteq> [] then '' ['' @ join '', '' constraints @ '']'' else []);
          default_str = (if truthy (col_default col) then '' DEFAULT '' @ the (col_default col) else [])
      in ''  '' @ bullet @ '' '' @ name col @ '': '' @ dtype @ '' '' @ nullable_str @ default_str @ constraint_str)"

definition full_index_line :: "index_info \<Rightarrow> string" where
  "full_index_line idx =
     (let idx_kind = (if idx_unique idx then ''UNIQUE'' else ''INDEX'');
          cols = join '', '' (idx_columns idx)
      in ''  '' @ bullet @ '' '' @ idx_name idx @ '': '' @ idx_kind @ '' ('' @ cols @ '') ['' @ idx_type idx @ '']'')"

definition full_table_lines :: "catalog \<Rightarrow> string \<Rightarrow> string list" where
  \<comment> \<open>the lines that one round of the loop over the tables appends\<close>
  "full_table_lines db tbl =
     (let details = get_table_details db tbl;
          non_pk_indexes = filter (\<lambda>idx. \<not> idx_primary idx) (indexes details)
      in [''TABLE: '' @ tbl] @
         (if row_count details > 0 then [''Rows: ~'' @ fmt_thousands (row_count details)] else []) @
         [replicate 80 CHR ''-''] @
         [''COLUMNS:''] @
         map full_column_line (columns details) @
         (if non_pk_indexes \<noteq> [] then [Nil, ''INDEXES:''] @ map full_index_line non_pk_indexes
          else []) @
         [Nil])"

definition extract_schema :: "string \<Rightarrow> catalog \<Rightarrow> string" where
  "extract_schema dbn db =
     (let tables = get_all_tables db in
      if tables = [] then
        ''Database '' @ [CHR 0x27] @ dbn @ [CHR 0x27] @ '': No tables found in public schema.''
      else join ''\<newline>''
        ([''DATABASE: '' @ [CHR 0x27] @ dbn @ [CHR 0x27],
          ''TABLES: '' @ str_nat (length tables),
          replicate 80 CHR ''='',
          []] @
         concat (map (full_table_lines db) tables)))"

text \<open>
  Catalogues without the capital letter T: neither the database name nor any name, type,
  default or reference that the summaries print contains it. This is enough for no line
  of a summary to contain \<open>Table:\<close>; it is not needed for that.
\<close>

definition no_T :: "string \<Rightarrow> bool" where
  "no_T s = (CHR ''T'' \<notin> set s)"

definition column_no_T :: "column \<Rightarrow> bool" where
  "column_no_T c =
     (no_T (name c) \<and> no_T (data_type c)
      \<and> (case col_default c of None \<Rightarrow> True | Some d \<Rightarrow> no_T d)
      \<and> (case references c of None \<Rightarrow> True | Some r \<Rightarrow> no_T r))"

definition index_no_T :: "index_info \<Rightarrow> bool" where
  "index_no_T idx = (no_T (idx_name idx) \<and> list_all no_T (idx_columns idx) \<and> no_T (idx_type idx))"

definition catalog_no_T :: "string \<Rightarrow> catalog \<Rightarrow> bool" where
  "catalog_no_T dbn db =
     (no_T dbn \<and>
      list_all (\<lambda>tbl. no_T tbl
          \<and> list_all column_no_T (columns (get_table_details db tbl))
          \<and> list_all index_no_T (indexes (get_table_details db tbl)))
        (get_all_tables db))"

text \<open>
  For the proofs: a text in which no \<open>T\<close> is directly followed by \<open>a\<close> and which does
  not end in \<open>T\<close>. Two such texts can be appended.
\<close>

fun no_Ta :: "string \<Rightarrow> bool" where
  "no_Ta [] = True"
| "no_Ta [c] = (c \<noteq> CHR ''T'')"
| "no_Ta (c # d # r) = (\<not> (c = CHR ''T'' \<and> d = CHR ''a'') \<and> no_Ta (d # r))"

text \<open>
  Two catalogues for concrete runs: one with a column whose quoted name is in camel case,
  one with lower-case identifiers only.
\<close>

definition camel_case_catalog :: catalog where
  "camel_case_catalog = \<lparr>
     get_all_tables = [''orders''],
     get_primary_keys = (\<lambda>tbl. []),
     get_foreign_keys = (\<lambda>tbl. Map.empty),
     get_unique_constraints = (\<lambda>tbl. []),
     get_indexes = (\<lambda>tbl. []),
     get_column_info = (\<lambda>tbl.
       [\<lparr>name = ''parentTable'', data_type = ''text'', max_length = None, precision = None,
         scale = None, nullable = True, col_default = None, udt_name = ''text''\<rparr>]),
     get_table_row_count = (\<lambda>tbl. 0)\<rparr>"

definition lower_case_catalog :: catalog where
  "lower_case_catalog = \<lparr>
     get_all_tables = [''customers'', ''orders''],
     get_primary_keys = (\<lambda>tbl. [''id'']),
     get_foreign_keys = (\<lambda>tbl. if tbl = ''orders''
        then [''customer_id'' \<mapsto> (''customers'', ''id'', ''NO ACTION'', ''CASCADE'')] else Map.empty),
     get_unique_constraints = (\<lambda>tbl. []),
     get_indexes = (\<lambda>tbl.
       [\<lparr>idx_name = tbl @ ''_pkey'', idx_columns = [''id''], idx_unique = True,
         idx_primary = True, idx_type = ''btree''\<rparr>]),
     get_column_info = (\<lambda>tbl.
       if tbl = ''orders'' then
         [\<lparr>name = ''id'', data_type = ''integer'', max_length = None, precision = Some 32,
           scale = Some 0, nullable = False, col_default = None, udt_name = ''int4''\<rparr>,
          \<lparr>name = ''customer_id'', data_type = ''integer'', max_length = None, precision = Some 32,
           scale = Some 0, nullable = False, col_default = None, udt_name = ''int4''\<rparr>]
       else
         [\<lparr>name = ''id'', data_type = ''integer'', max_length = None, precision = Some 32,
           scale = Some 0, nullable = False, col_default = None, udt_name = ''int4''\<rparr>,
          \<lparr>name = ''email'', data_type = ''character varying'', max_length = Some 255,
           precision = None, scale = None, nullable = True, col_default = None,
           udt_name = ''varchar''\<rparr>]),
     get_table_row_count = (\<lambda>tbl. 1200)\<rparr>"

section \<open>The execution endpoints\<close>

text \<open>
  The database is a collaborator. Its state has the type \<open>'db\<close>, and running a statement
  is a function from the state to a result (or an exception) and the next state. The
  endpoints pass the state along, so a request that is refused leaves it as it was.
  \<open>get_schema\<close> (the cached summary), \<open>executor\<close> (the call
  \<open>SQLExecutorAgent(db_name, schema).execute(sql)\<close>) and \<open>handler\<close> (the call
  \<open>PostgreSQLHandler(db_name).execute(sql)\<close>) are parameters.
\<close>

record SQLExecutionRequest =
  req_db_name :: string
  req_sql :: string
  confirm :: bool

record SmartAdminExecuteRequest =
  smart_db_name :: string
  smart_sql :: string

datatype 'r reply =
    HTTPException nat string
  | Result 'r
  | ErrorResponse string

fun str_error :: "py_error \<Rightarrow> string" where
  \<comment> \<open>\<open>str(e)\<close>\<close>
  "str_error IndexError = ''list index out of range''"
| "str_error (Exception msg) = msg"

definition execute_sql ::
  "(string \<Rightarrow> py_error + string) \<Rightarrow>
   (string \<Rightarrow> string \<Rightarrow> string \<Rightarrow> 'db \<Rightarrow> (py_error + 'r) \<times> 'db) \<Rightarrow>
   SQLExecutionRequest \<Rightarrow> 'db \<Rightarrow> 'r reply \<times> 'db" where
  \<comment> \<open>the endpoint \<open>/query/execute\<close>\<close>
  "execute_sql get_schema executor request db =
     (if \<not> confirm request then (HTTPException 400 ''Execution requires confirmation'', db)
      else
        (case get_schema (req_db_name request) of
           Inl e \<Rightarrow> (ErrorResponse (str_error e), db)
         | Inr schema \<Rightarrow>
             (case executor (req_db_name request) schema (req_sql request) db of
                (Inl e, db') \<Rightarrow> (ErrorResponse (str_error e), db')
              | (Inr result, db') \<Rightarrow> (Result result, db'))))"

definition agent_execute_sql ::
  "(string \<Rightarrow> string \<Rightarrow> 'db \<Rightarrow> (py_error + 'r) \<times> 'db) \<Rightarrow>
   agent \<Rightarrow> string \<Rightarrow> 'db \<Rightarrow> (py_error + 'r) \<times> 'db" where
  \<comment> \<open>\<open>SmartDBAdminAgent.execute_sql\<close>\<close>
  "agent_execute_sql handler a sql db = handler (db_name a) sql db"

definition smart_admin_execute ::
  "(string \<Rightarrow> string \<Rightarrow> 'db \<Rightarrow> (py_error + 'r) \<times> 'db) \<Rightarrow>
   SmartAdminExecuteRequest \<Rightarrow> 'db \<Rightarrow> 'r reply \<times> 'db" where
  \<comment> \<open>the endpoint \<open>/admin/smart/execute\<close>\<close>
  "smart_admin_execute handler request db =
     (let a = \<lparr>db_name = smart_db_name request, schema_context = None\<rparr> in
      case agent_execute_sql handler a (smart_sql request) db of
        (Inl e, db') \<Rightarrow> (ErrorResponse (''Failed to execute SQL: '' @ str_error e), db')
      | (Inr result, db') \<Rightarrow> (Result result, db'))"

text \<open>
  A database for concrete runs: its state is the list of the statements it has run, and
  every statement succeeds.
\<close>

definition logging_handler :: "string \<Rightarrow> string \<Rightarrow> string list \<Rightarrow> (py_error + unit) \<times> string list" where
  "logging_handler dbn sql db = (Inr (), db @ [sql])"

definition logging_executor ::
  "string \<Rightarrow> string \<Rightarrow> string \<Rightarrow> string list \<Rightarrow> (py_error + unit) \<times> string list" where
  "logging_executor dbn schema sql db = (Inr (), db @ [sql])"

section \<open>Properties of the string operations\<close>

lemma startswith_iff: "startswith s p \<longleftrightarrow> prefix p s"
  by (induction s p rule: startswith.induct) auto

lemma contains_iff: "contains s sub \<longleftrightarrow> (\<exists>p q. s = p @ sub @ q)"
proof (induction s)
  case Nil
  then show ?case by auto
next
  case (Cons c cs)
  show ?case
  proof
    assume "contains (c # cs) sub"
    then consider "prefix sub (c # cs)" | "contains cs sub"
      by (auto simp: startswith_iff)
    then show "\<exists>p q. c # cs = p @ sub @ q"
    proof cases
      case 1
      then obtain q where "c # cs = sub @ q" by (auto simp: prefix_def)
      then have "c # cs = [] @ sub @ q" by simp
      then show ?thesis by blast
    next
      case 2
      then obtain p q where "cs = p @ sub @ q" using Cons.IH by blast
      then have "c # cs = (c # p) @ sub @ q" by simp
      then show ?thesis by blast
    qed
  next
    assume "\<exists>p q. c # cs = p @ sub @ q"
    then obtain p q where pq: "c # cs = p @ sub @ q" by blast
    show "contains (c # cs) sub"
    proof (cases p)
      case Nil
      then have "prefix sub (c # cs)" using pq by (simp add: prefix_def)
      then show ?thesis by (simp add: startswith_iff)
    next
      case (Cons a p')
      then have "cs = p' @ sub @ q" using pq by simp
      then have "contains cs sub" using Cons.IH by blast
      then show ?thesis by simp
    qed
  qed
qed

lemma lstrip_keeps:
  assumes "s = p @ k # r" "\<not> isspace k"
  shows "\<exists>p'. lstrip s = p' @ k # r"
  using assms unfolding lstrip_def
  by (induction p arbitrary: s) auto

lemma rstrip_keeps:
  assumes "s = p @ k # r" "\<not> isspace k"
  shows "\<exists>r'. rstrip s = p @ k # r'"
proof -
  have "rev s = rev r @ k # rev p" using assms by simp
  then obtain r' where "dropWhile isspace (rev s) = r' @ k # rev p"
    using lstrip_keeps[OF _ assms(2)] unfolding lstrip_def by blast
  then have "rstrip s = p @ k # rev r'" unfolding rstrip_def by simp
  then show ?thesis by blast
qed

lemma contains_strip:
  assumes "contains s kw" "kw \<noteq> []" "\<not> isspace (hd kw)" "\<not> isspace (last kw)"
  shows "contains (strip s) kw"
proof -
  obtain p q where s: "s = p @ kw @ q" using assms(1) by (auto simp: contains_iff)
  obtain k kw' where kw: "kw = k # kw'" using assms(2) by (cases kw) auto
  have "s = p @ k # (kw' @ q)" using s kw by simp
  then obtain p' where l: "lstrip s = p' @ k # (kw' @ q)"
    using lstrip_keeps assms(3) kw by (metis list.sel(1))
  have "kw = butlast kw @ [last kw]" using assms(2) by simp
  then have "lstrip s = (p' @ butlast kw) @ last kw # q" using l kw
    by (metis append.assoc append_Cons append_Nil)
  then obtain r' where "rstrip (lstrip s) = (p' @ butlast kw) @ last kw # r'"
    using rstrip_keeps assms(4) by blast
  then have "strip s = p' @ kw @ r'" using assms(2) by (simp add: strip_def)
  then show ?thesis by (auto simp: contains_iff)
qed

lemma strip_sub: "\<exists>p q. s = p @ strip s @ q"
proof -
  have a: "s = takeWhile isspace s @ lstrip s" by (simp add: lstrip_def)
  have "rev (lstrip s) = takeWhile isspace (rev (lstrip s)) @ dropWhile isspace (rev (lstrip s))"
    by simp
  then have "lstrip s = rstrip (lstrip s) @ rev (takeWhile isspace (rev (lstrip s)))"
    unfolding rstrip_def by (metis rev_append rev_rev_ident)
  then have "s = takeWhile isspace s @ strip s @ rev (takeWhile isspace (rev (lstrip s)))"
    using a by (simp add: strip_def)
  then show ?thesis by blast
qed

lemma contains_strip_iff:
  assumes "kw \<noteq> []" "\<not> isspace (hd kw)" "\<not> isspace (last kw)"
  shows "contains (strip s) kw \<longleftrightarrow> contains s kw"
proof
  assume "contains (strip s) kw"
  then obtain p q where "strip s = p @ kw @ q" by (auto simp: contains_iff)
  moreover obtain p' q' where "s = p' @ strip s @ q'" using strip_sub by blast
  ultimately have "s = (p' @ p) @ kw @ (q @ q')" by simp
  then show "contains s kw" unfolding contains_iff by blast
next
  assume "contains s kw"
  then show "contains (strip s) kw" using contains_strip assms by blast
qed

lemma contains_any_strip:
  assumes "\<forall>kw \<in> set kws. kw \<noteq> [] \<and> \<not> isspace (hd kw) \<and> \<not> isspace (last kw)"
  shows "contains_any (strip s) kws \<longleftrightarrow> contains_any s kws"
  using assms by (auto simp: contains_any_def list_ex_iff contains_strip_iff)

lemma dangerous_strip:
  "contains_any (strip s) dangerous_keywords \<longleftrightarrow> contains_any s dangerous_keywords"
  by (rule contains_any_strip) (simp add: dangerous_keywords_def isspace_def)

lemma modify_strip:
  "contains_any (strip s) modify_keywords \<longleftrightarrow> contains_any s modify_keywords"
  by (rule contains_any_strip) (simp add: modify_keywords_def isspace_def)

section \<open>Properties of the safety classifier\<close>

lemma level_cases:
  "level (analyze_safety sql) =
     (let u = strip (upper sql) in
      if contains_any u dangerous_keywords then ''dangerous''
      else if contains_any u modify_keywords then ''modify''
      else if startswith_any u safe_prefixes then ''safe''
      else ''unknown'')"
  by (simp add: analyze_safety_def Let_def dangerous_verdict_def modify_verdict_def
      safe_verdict_def unknown_verdict_def)

lemma level_dangerous_iff:
  "level (analyze_safety sql) = ''dangerous'' \<longleftrightarrow> contains_any (upper sql) dangerous_keywords"
  by (simp add: level_cases Let_def dangerous_strip)

text \<open>
  Claim C2. For every SQL string the classifier tests containment of a dangerous keyword
  first, then containment of a modify keyword, then the safe prefixes; so a statement that
  starts with SELECT and contains DROP in any case has tier \<open>dangerous\<close>, not \<open>safe\<close>.
\<close>

theorem safety_check_order:
  "level (analyze_safety sql) =
     (let sql_upper = strip (upper sql) in
      if contains_any sql_upper [''DROP'', ''TRUNCATE''] then ''dangerous''
      else if contains_any sql_upper [''DELETE'', ''UPDATE'', ''INSERT'', ''ALTER'', ''CREATE''] then ''modify''
      else if startswith_any sql_upper [''SELECT'', ''SHOW'', ''WITH''] then ''safe''
      else ''unknown'')
   \<and> (startswith (strip (upper sql)) ''SELECT'' \<and> contains (upper sql) ''DROP''
        \<longrightarrow> level (analyze_safety sql) = ''dangerous'' \<and> level (analyze_safety sql) \<noteq> ''safe'')"
proof -
  have a: "level (analyze_safety sql) =
     (let sql_upper = strip (upper sql) in
      if contains_any sql_upper [''DROP'', ''TRUNCATE''] then ''dangerous''
      else if contains_any sql_upper [''DELETE'', ''UPDATE'', ''INSERT'', ''ALTER'', ''CREATE''] then ''modify''
      else if startswith_any sql_upper [''SELECT'', ''SHOW'', ''WITH''] then ''safe''
      else ''unknown'')"
    using level_cases[of sql]
    by (simp only: dangerous_keywords_def modify_keywords_def safe_prefixes_def)
  have b: "contains (upper sql) ''DROP'' \<Longrightarrow> level (analyze_safety sql) = ''dangerous''"
    by (simp add: level_dangerous_iff contains_any_def dangerous_keywords_def)
  have c: "level (analyze_safety sql) = ''dangerous'' \<Longrightarrow> level (analyze_safety sql) \<noteq> ''safe''"
    by simp
  show ?thesis using a b c by blast
qed

theorem safety_check_order_witness:
  "startswith (strip (upper ''SELECT 'drop' AS x;'')) ''SELECT''
   \<and> contains (upper ''SELECT 'drop' AS x;'') ''DROP''
   \<and> level (analyze_safety ''SELECT 'drop' AS x;'') = ''dangerous''
   \<and> level (analyze_safety ''SELECT 'drop' AS x;'') \<noteq> ''safe''"
proof -
  have a: "startswith (strip (upper ''SELECT 'drop' AS x;'')) ''SELECT''"
    by code_simp
  have b: "contains (upper ''SELECT 'drop' AS x;'') ''DROP''"
    by code_simp
  show ?thesis using safety_check_order[of "''SELECT 'drop' AS x;''"] a b by blast
qed

text \<open>
  Claim C3, as stated: the tier is \<open>dangerous\<close> exactly when DROP or TRUNCATE occurs as a
  whole keyword, so that a text holding one of them only inside a longer word is not
  dangerous. The classifier tests plain containment: the read-only statement below, whose
  table name merely begins with ``drop'', is classified \<open>dangerous\<close> although neither
  keyword occurs in it as a whole word.
\<close>

theorem dangerous_whole_keyword_counterexample:
  "level (analyze_safety ''SELECT * FROM dropbox;'') = ''dangerous''
   \<and> \<not> contains_whole_keyword (upper ''SELECT * FROM dropbox;'') ''DROP''
   \<and> \<not> contains_whole_keyword (upper ''SELECT * FROM dropbox;'') ''TRUNCATE''"
  by code_simp

text \<open>
  Claim C3, amended: the tier is \<open>dangerous\<close> exactly when the upper-cased SQL text contains
  DROP or TRUNCATE as a substring, and the verdict then carries the recommendation and the
  warning that stress that the operation is permanent and cannot be undone.
\<close>

theorem dangerous_iff_substring:
  "(level (analyze_safety sql) = ''dangerous''
      \<longleftrightarrow> contains (upper sql) ''DROP'' \<or> contains (upper sql) ''TRUNCATE'')
   \<and> (level (analyze_safety sql) = ''dangerous'' \<longrightarrow>
        recommendation (analyze_safety sql) =
          [CHR 0xC3, CHR 0xB0, CHR 0xC5, CHR 0xB8, CHR 0xE2, CHR 0x80, CHR 0xBA, CHR 0xE2, CHR 0x80, CHR 0x98] @
          '' DANGEROUS: This will permanently delete data or structure. Triple-check before executing!''
        \<and> warnings (analyze_safety sql) =
          Some ''This operation cannot be undone. Make sure you have a backup.'')"
proof -
  have "level (analyze_safety sql) = ''dangerous'' \<Longrightarrow> analyze_safety sql = dangerous_verdict"
    by (auto simp: analyze_safety_def Let_def dangerous_verdict_def modify_verdict_def
      safe_verdict_def unknown_verdict_def split: if_splits)
  then show ?thesis
    by (auto simp: level_dangerous_iff contains_any_def dangerous_keywords_def dangerous_verdict_def)
qed

theorem dangerous_iff_substring_witness:
  "contains (upper ''select * from dropbox'') ''DROP''
   \<and> level (analyze_safety ''select * from dropbox'') = ''dangerous''
   \<and> warnings (analyze_safety ''select * from dropbox'') =
          Some ''This operation cannot be undone. Make sure you have a backup.''"
proof -
  have b: "contains (upper ''select * from dropbox'') ''DROP''"
    by code_simp
  show ?thesis using dangerous_iff_substring[of "''select * from dropbox''"] b by blast
qed

section \<open>Properties of the intent classifier\<close>

lemma type_in_kinds: "type (analyze_intent q) \<in> set intent_kinds"
  by (simp add: analyze_intent_def Let_def intent_kinds_def)

lemma statistics_explanation:
  "type (analyze_intent q) = ''statistics'' \<longrightarrow>
   explanation (analyze_intent q) = ''Show database statistics''"
  by (simp add: analyze_intent_def Let_def)

lemma contains_any_append: "contains_any s (xs @ ys) \<longleftrightarrow> contains_any s xs \<or> contains_any s ys"
  by (auto simp: contains_any_def list_ex_iff)

lemma startswith_any_append: "startswith_any s (xs @ ys) \<longleftrightarrow> startswith_any s xs \<or> startswith_any s ys"
  by (auto simp: startswith_any_def list_ex_iff)

text \<open>
  Claim C6. Classification is total: every input has exactly one intent, whose tag is one
  of the thirteen, and the tag is \<open>unknown\<close> exactly when the trimmed lower-cased input
  contains no keyword of the ten keyword sets and starts with none of the data-query and
  modification prefixes. The source function calls nothing that can raise (case
  conversion, trimming, containment and prefix tests, and a regular-expression search whose
  group 1 every pattern has), so the model has no error result.
\<close>

theorem classify_total:
  "(\<exists>!i. analyze_intent q = i)
   \<and> type (analyze_intent q) \<in> set intent_kinds
   \<and> (type (analyze_intent q) = ''unknown'' \<longleftrightarrow>
       \<not> contains_any (strip (lower q))
          ([''show tables'', ''list tables'', ''what tables'', ''all tables''] @
           [''describe'', ''table structure'', ''columns in'', ''show columns'', ''schema of''] @
           [''show indexes'', ''list indexes'', ''what indexes'', ''all indexes''] @
           [''foreign key'', ''relationships'', ''references'', ''constraints''] @
           [''table size'', ''table sizes'', ''disk usage'', ''space used''] @
           [''database size'', ''db size'', ''total size''] @
           [''row count'', ''table rows'', ''count rows'', ''how many rows''] @
           [''connections'', ''active sessions'', ''who is connected'', ''connected users''] @
           [''running queries'', ''active queries'', ''current queries''] @
           [''statistics'', ''stats'', ''table stats''])
       \<and> \<not> startswith_any (strip (lower q))
          ([''select'', ''show me'', ''get'', ''find'', ''list all''] @
           [''update'', ''delete'', ''insert'', ''create'', ''alter'', ''drop'']))"
proof (intro conjI)
  show "\<exists>!i. analyze_intent q = i" by simp
next
  show "type (analyze_intent q) \<in> set intent_kinds" by (rule type_in_kinds)
next
  show "type (analyze_intent q) = ''unknown'' \<longleftrightarrow>
       \<not> contains_any (strip (lower q))
          ([''show tables'', ''list tables'', ''what tables'', ''all tables''] @
           [''describe'', ''table structure'', ''columns in'', ''show columns'', ''schema of''] @
           [''show indexes'', ''list indexes'', ''what indexes'', ''all indexes''] @
           [''foreign key'', ''relationships'', ''references'', ''constraints''] @
           [''table size'', ''table sizes'', ''disk usage'', ''space used''] @
           [''database size'', ''db size'', ''total size''] @
           [''row count'', ''table rows'', ''count rows'', ''how many rows''] @
           [''connections'', ''active sessions'', ''who is connected'', ''connected users''] @
           [''running queries'', ''active queries'', ''current queries''] @
           [''statistics'', ''stats'', ''table stats''])
       \<and> \<not> startswith_any (strip (lower q))
          ([''select'', ''show me'', ''get'', ''find'', ''list all''] @
           [''update'', ''delete'', ''insert'', ''create'', ''alter'', ''drop''])"
    unfolding contains_any_append startswith_any_append
    by (simp add: analyze_intent_def Let_def)
qed

lemma first_table_name_Some:
  "first_table_name ps q = Some t \<Longrightarrow>
   t \<notin> set stop_words \<and>
   (\<exists>i<length ps. search (ps ! i) q = Some (Some t) \<and>
      (\<forall>j<i. search (ps ! j) q = None \<or> (\<exists>w\<in>set stop_words. search (ps ! j) q = Some (Some w))))"
proof (induction ps)
  case Nil
  then show ?case by simp
next
  case (Cons p ps)
  show ?case
  proof (cases "search p q")
    case None
    then have "first_table_name ps q = Some t" using Cons.prems by simp
    then obtain i where i: "t \<notin> set stop_words" "i < length ps" "search (ps ! i) q = Some (Some t)"
      "\<forall>j<i. search (ps ! j) q = None \<or> (\<exists>w\<in>set stop_words. search (ps ! j) q = Some (Some w))"
      using Cons.IH by blast
    have "\<forall>j<Suc i. search ((p # ps) ! j) q = None \<or> (\<exists>w\<in>set stop_words. search ((p # ps) ! j) q = Some (Some w))"
      using i(4) None by (auto simp: less_Suc_eq_0_disj)
    moreover have "Suc i < length (p # ps)" "search ((p # ps) ! Suc i) q = Some (Some t)"
      using i by auto
    ultimately show ?thesis using i(1) by blast
  next
    case (Some g)
    show ?thesis
    proof (cases g)
      case None
      then show ?thesis using Some Cons.prems by simp
    next
      case (Some w)
      show ?thesis
      proof (cases "w \<in> set stop_words")
        case False
        then have "t = w" using \<open>search p q = Some g\<close> Some Cons.prems by simp
        then have "search ((p # ps) ! 0) q = Some (Some t)" "0 < length (p # ps)"
          using \<open>search p q = Some g\<close> Some by auto
        then show ?thesis using False \<open>t = w\<close> by blast
      next
        case True
        then have "first_table_name ps q = Some t"
          using \<open>search p q = Some g\<close> Some Cons.prems by simp
        then obtain i where i: "t \<notin> set stop_words" "i < length ps" "search (ps ! i) q = Some (Some t)"
          "\<forall>j<i. search (ps ! j) q = None \<or> (\<exists>w\<in>set stop_words. search (ps ! j) q = Some (Some w))"
          using Cons.IH by blast
        have "\<forall>j<Suc i. search ((p # ps) ! j) q = None \<or> (\<exists>w\<in>set stop_words. search ((p # ps) ! j) q = Some (Some w))"
          using i(4) True \<open>search p q = Some g\<close> Some by (auto simp: less_Suc_eq_0_disj)
        moreover have "Suc i < length (p # ps)" "search ((p # ps) ! Suc i) q = Some (Some t)"
          using i by auto
        ultimately show ?thesis using i(1) by blast
      qed
    qed
  qed
qed

lemma first_table_name_first:
  assumes "i < length ps" "search (ps ! i) q = Some (Some t)" "t \<notin> set stop_words"
    "\<forall>j<i. search (ps ! j) q = None \<or> (\<exists>w\<in>set stop_words. search (ps ! j) q = Some (Some w))"
  shows "first_table_name ps q = Some t"
  using assms
proof (induction ps arbitrary: i)
  case Nil
  then show ?case by simp
next
  case (Cons p ps)
  show ?case
  proof (cases i)
    case 0
    then have "search p q = Some (Some t)" using Cons.prems(2) by simp
    then show ?thesis using Cons.prems(3) by simp
  next
    case (Suc k)
    have k: "k < length ps" "search (ps ! k) q = Some (Some t)"
      using Cons.prems(1,2) Suc by simp_all
    have e: "\<forall>j<k. search (ps ! j) q = None \<or> (\<exists>w\<in>set stop_words. search (ps ! j) q = Some (Some w))"
    proof (intro allI impI)
      fix j assume "j < k"
      then have "Suc j < i" using Suc by simp
      then have "search ((p # ps) ! Suc j) q = None
          \<or> (\<exists>w\<in>set stop_words. search ((p # ps) ! Suc j) q = Some (Some w))"
        using Cons.prems(4) by blast
      then show "search (ps ! j) q = None \<or> (\<exists>w\<in>set stop_words. search (ps ! j) q = Some (Some w))"
        by simp
    qed
    have r: "first_table_name ps q = Some t"
      using Cons.IH[OF k(1) k(2) Cons.prems(3) e] .
    have "0 < i" using Suc by simp
    then have "search ((p # ps) ! 0) q = None
          \<or> (\<exists>w\<in>set stop_words. search ((p # ps) ! 0) q = Some (Some w))"
      using Cons.prems(4) by blast
    then have "search p q = None \<or> (\<exists>w\<in>set stop_words. search p q = Some (Some w))" by simp
    then show ?thesis using r by auto
  qed
qed

text \<open>
  Claim C8. Extraction from ``show columns in customer_orders'' gives \<open>customer_orders\<close>.
  In general the four patterns are tried in the source's order, and a capture that is one
  of the stop words table, from, in, for, of, the, a, an is never returned: extraction
  returns a name exactly when that name is the group of the leftmost match of some
  pattern, is not a stop word, and every earlier pattern has either no match or a leftmost
  match whose group is a stop word. The further inputs show a name found by the second, by
  the third and by the fourth pattern (the last after the first pattern has captured the
  stop word ``the''), the leftmost match being the one taken, and an input on which every
  pattern fails or captures a stop word.
\<close>

theorem table_name_extraction:
  "extract_table_name ''show columns in customer_orders'' = Some ''customer_orders''
   \<and> length patterns = 4
   \<and> (extract_table_name q = Some t \<longleftrightarrow>
        (\<exists>i<length patterns. search (patterns ! i) q = Some (Some t)
           \<and> t \<notin> set [''table'', ''from'', ''in'', ''for'', ''of'', ''the'', ''a'', ''an'']
           \<and> (\<forall>j<i. search (patterns ! j) q = None
                \<or> (\<exists>w\<in>set [''table'', ''from'', ''in'', ''for'', ''of'', ''the'', ''a'', ''an''].
                      search (patterns ! j) q = Some (Some w)))))
   \<and> extract_table_name ''describe `actor` table'' = Some ''actor''
   \<and> extract_table_name ''describe actor'' = Some ''actor''
   \<and> extract_table_name ''for the columns in users'' = Some ''users''
   \<and> extract_table_name ''rows in orders for customers'' = Some ''orders''
   \<and> extract_table_name ''describe the orders table'' = None"
proof (intro conjI)
  show "extract_table_name ''rows in orders for customers'' = Some ''orders''" by code_simp
  show "extract_table_name ''show columns in customer_orders'' = Some ''customer_orders''"
    by code_simp
  show "length patterns = 4" by (simp add: patterns_def)
  show "extract_table_name ''describe `actor` table'' = Some ''actor''" by code_simp
  show "extract_table_name ''describe actor'' = Some ''actor''" by code_simp
  show "extract_table_name ''for the columns in users'' = Some ''users''" by code_simp
  show "extract_table_name ''describe the orders table'' = None" by code_simp
  have s: "set [''table'', ''from'', ''in'', ''for'', ''of'', ''the'', ''a'', ''an''] = set stop_words"
    by (simp add: stop_words_def)
  show "extract_table_name q = Some t \<longleftrightarrow>
        (\<exists>i<length patterns. search (patterns ! i) q = Some (Some t)
           \<and> t \<notin> set [''table'', ''from'', ''in'', ''for'', ''of'', ''the'', ''a'', ''an'']
           \<and> (\<forall>j<i. search (patterns ! j) q = None
                \<or> (\<exists>w\<in>set [''table'', ''from'', ''in'', ''for'', ''of'', ''the'', ''a'', ''an''].
                      search (patterns ! j) q = Some (Some w))))"
    unfolding s extract_table_name_def
  proof
    assume "first_table_name patterns q = Some t"
    from first_table_name_Some[OF this]
    show "\<exists>i<length patterns. search (patterns ! i) q = Some (Some t) \<and> t \<notin> set stop_words
           \<and> (\<forall>j<i. search (patterns ! j) q = None
                \<or> (\<exists>w\<in>set stop_words. search (patterns ! j) q = Some (Some w)))"
      by blast
  next
    assume "\<exists>i<length patterns. search (patterns ! i) q = Some (Some t) \<and> t \<notin> set stop_words
           \<and> (\<forall>j<i. search (patterns ! j) q = None
                \<or> (\<exists>w\<in>set stop_words. search (patterns ! j) q = Some (Some w)))"
    then obtain i where "i < length patterns" "search (patterns ! i) q = Some (Some t)"
      "t \<notin> set stop_words"
      "\<forall>j<i. search (patterns ! j) q = None
                \<or> (\<exists>w\<in>set stop_words. search (patterns ! j) q = Some (Some w))"
      by blast
    then show "first_table_name patterns q = Some t" by (rule first_table_name_first)
  qed
qed

theorem table_name_extraction_witness:
  "search (patterns ! 0) ''for the columns in users'' = Some (Some ''the'')
   \<and> search (patterns ! 1) ''for the columns in users'' = None
   \<and> search (patterns ! 2) ''for the columns in users'' = None
   \<and> search (patterns ! 3) ''for the columns in users'' = Some (Some ''users'')
   \<and> extract_table_name ''for the columns in users'' = Some ''users''"
proof -
  let ?q = "''for the columns in users''"
  let ?stop = "[''table'', ''from'', ''in'', ''for'', ''of'', ''the'', ''a'', ''an'']"
  have p0: "search (patterns ! 0) ?q = Some (Some ''the'')" by code_simp
  have p1: "search (patterns ! 1) ?q = None" by code_simp
  have p2: "search (patterns ! 2) ?q = None" by code_simp
  have p3: "search (patterns ! 3) ?q = Some (Some ''users'')" by code_simp
  have n: "''users'' \<notin> set ?stop" by simp
  have "''the'' \<in> set ?stop" by simp
  then have w0: "\<exists>w\<in>set ?stop. search (patterns ! 0) ?q = Some (Some w)"
    using p0 by blast
  have e: "\<forall>j<3. search (patterns ! j) ?q = None
                \<or> (\<exists>w\<in>set ?stop. search (patterns ! j) ?q = Some (Some w))"
  proof (intro allI impI)
    fix j :: nat assume "j < 3"
    then consider "j = 0" | "j = 1" | "j = 2" by linarith
    then show "search (patterns ! j) ?q = None
                \<or> (\<exists>w\<in>set ?stop. search (patterns ! j) ?q = Some (Some w))"
      using w0 p1 p2 by cases simp_all
  qed
  have l: "(3::nat) < length patterns" by (simp add: patterns_def)
  have "extract_table_name ?q = Some ''users'' \<longleftrightarrow>
        (\<exists>i<length patterns. search (patterns ! i) ?q = Some (Some ''users'')
           \<and> ''users'' \<notin> set ?stop
           \<and> (\<forall>j<i. search (patterns ! j) ?q = None
                \<or> (\<exists>w\<in>set ?stop. search (patterns ! j) ?q = Some (Some w))))"
    using table_name_extraction[of ?q "''users''"] by (elim conjE)
  moreover have "\<exists>i<length patterns. search (patterns ! i) ?q = Some (Some ''users'')
           \<and> ''users'' \<notin> set ?stop
           \<and> (\<forall>j<i. search (patterns ! j) ?q = None
                \<or> (\<exists>w\<in>set ?stop. search (patterns ! j) ?q = Some (Some w)))"
    using l p3 n e by blast
  ultimately have "extract_table_name ?q = Some ''users''" by (rule iffD2)
  then show ?thesis using p0 p1 p2 p3 by (intro conjI)
qed

section \<open>Properties of request processing\<close>

lemma process_query_fst:
  "fst (process_query extracted a q) =
     (case generate_sql q (analyze_intent q) (fst (load_schema_context extracted a)) of
        Inl e \<Rightarrow> Inl e
      | Inr sql \<Rightarrow>
          if \<not> truthy sql then
            Inr (Failure ''Could not generate SQL query. Please rephrase your request.''
                   (get_suggestions q))
          else
            Inr (Success (the sql) (explanation (analyze_intent q)) (level (analyze_safety (the sql)))
                   (recommendation (analyze_safety (the sql))) (warnings (analyze_safety (the sql)))
                   (type (analyze_intent q))))"
  by (simp add: process_query_def Let_def case_prod_beta split: sum.splits)

lemma generate_sql_modification:
  "type i = ''modification'' \<Longrightarrow> generate_sql q i schema = Inr None"
  by (simp add: generate_sql_def Let_def)

lemma generate_sql_statistics:
  "type i = ''statistics'' \<Longrightarrow> generate_sql q i schema = Inr (Some statistics_sql)"
  by (simp add: generate_sql_def Let_def)

lemma level_modify_verdict:
  "level (analyze_safety sql) = ''modify'' \<Longrightarrow> analyze_safety sql = modify_verdict"
  by (auto simp: analyze_safety_def Let_def dangerous_verdict_def modify_verdict_def
      safe_verdict_def unknown_verdict_def split: if_splits)

lemma statistics_sql_level: "level (analyze_safety statistics_sql) = ''modify''"
  by code_simp

lemma statistics_sql_nonempty: "statistics_sql \<noteq> []"
  by (simp add: statistics_sql_def)

text \<open>
  Claim C9, as stated: for an input whose intent is \<open>modification\<close> the failure result
  carries the list ``Show all tables'', ``Show table sizes'', ..., verbatim. For the input
  below the result is the failure, and its list is not that list of eight strings.
\<close>

theorem modification_suggestions_counterexample:
  "type (analyze_intent ''drop table actor'') = ''modification''
   \<and> fst (process_query (Inr ''Schema unavailable'')
          \<lparr>db_name = ''dvdrental'', schema_context = None\<rparr> ''drop table actor'')
       = Inr (Failure ''Could not generate SQL query. Please rephrase your request.''
               (get_suggestions ''drop table actor''))
   \<and> get_suggestions ''drop table actor'' \<noteq>
         [''Show all tables'', ''Show table sizes'', ''List all indexes'',
          ''Describe table actor'', ''Show database size'', ''Show active connections'',
          ''Show row counts'', ''Show foreign keys'']"
proof -
  have a: "type (analyze_intent ''drop table actor'') = ''modification''" by code_simp
  have b: "fst (process_query (Inr ''Schema unavailable'')
          \<lparr>db_name = ''dvdrental'', schema_context = None\<rparr> ''drop table actor'')
      = Inr (Failure ''Could not generate SQL query. Please rephrase your request.''
              (get_suggestions ''drop table actor''))"
    by (simp add: process_query_fst generate_sql_modification[OF a] truthy_def)
  have c: "get_suggestions ''drop table actor'' \<noteq>
         [''Show all tables'', ''Show table sizes'', ''List all indexes'',
          ''Describe table actor'', ''Show database size'', ''Show active connections'',
          ''Show row counts'', ''Show foreign keys'']"
    by (simp add: get_suggestions_def)
  show ?thesis using a b c by (intro conjI)
qed

text \<open>
  Claim C9, amended: for every input whose intent is \<open>modification\<close>, whatever the schema
  and the state of the agent, the result is the failure with the fixed list of eight
  suggestions, the same for every input, each of them one of the eight example requests
  (in the claim's order) wrapped as \<open>Try: '...'\<close>.
\<close>

theorem modification_suggestions:
  "type (analyze_intent q) = ''modification'' \<Longrightarrow>
   fst (process_query extracted a q) =
     Inr (Failure ''Could not generate SQL query. Please rephrase your request.''
       [''Try: 'Show all tables'' @ [CHR 0x27],
        ''Try: 'Show table sizes'' @ [CHR 0x27],
        ''Try: 'List all indexes'' @ [CHR 0x27],
        ''Try: 'Describe table actor'' @ [CHR 0x27],
        ''Try: 'Show database size'' @ [CHR 0x27],
        ''Try: 'Show active connections'' @ [CHR 0x27],
        ''Try: 'Show row counts'' @ [CHR 0x27],
        ''Try: 'Show foreign keys'' @ [CHR 0x27]])"
  by (simp add: process_query_fst generate_sql_modification truthy_def get_suggestions_def)

theorem modification_suggestions_witness:
  "type (analyze_intent ''DROP TABLE actor'') = ''modification''
   \<and> fst (process_query (Inl (Exception ''connection refused'')) \<lparr>db_name = ''dvdrental'', schema_context = None\<rparr>
          ''DROP TABLE actor'') =
     Inr (Failure ''Could not generate SQL query. Please rephrase your request.''
       [''Try: 'Show all tables'' @ [CHR 0x27],
        ''Try: 'Show table sizes'' @ [CHR 0x27],
        ''Try: 'List all indexes'' @ [CHR 0x27],
        ''Try: 'Describe table actor'' @ [CHR 0x27],
        ''Try: 'Show database size'' @ [CHR 0x27],
        ''Try: 'Show active connections'' @ [CHR 0x27],
        ''Try: 'Show row counts'' @ [CHR 0x27],
        ''Try: 'Show foreign keys'' @ [CHR 0x27]])"
proof -
  have a: "type (analyze_intent ''DROP TABLE actor'') = ''modification''" by code_simp
  from modification_suggestions[OF a] a show ?thesis by (intro conjI)
qed

lemma statistics_sql_upper_select: "startswith (strip (upper statistics_sql)) ''SELECT''"
  by code_simp

lemma statistics_sql_not_dangerous: "\<not> contains_any (strip (upper statistics_sql)) [''DROP'', ''TRUNCATE'']"
  by code_simp

lemma statistics_sql_insert: "contains statistics_sql ''n_tup_ins AS inserts'' \<and> contains (strip (upper statistics_sql)) ''INSERT''"
  by code_simp

lemma statistics_sql_update: "contains statistics_sql ''n_tup_upd AS updates'' \<and> contains (strip (upper statistics_sql)) ''UPDATE''"
  by code_simp

lemma statistics_sql_delete: "contains statistics_sql ''n_tup_del AS deletes'' \<and> contains (strip (upper statistics_sql)) ''DELETE''"
  by code_simp

text \<open>
  Claim C10. For every input classified \<open>statistics\<close>, whatever the schema and the state
  of the agent, the request succeeds with the fixed statistics template and safety level
  \<open>modify\<close>, not \<open>safe\<close>: the template starts with SELECT and contains neither DROP nor
  TRUNCATE, but its column aliases \<open>inserts\<close>, \<open>updates\<close> and \<open>deletes\<close> put INSERT,
  UPDATE and DELETE into the upper-cased text.
\<close>

theorem statistics_classified_modify:
  "type (analyze_intent q) = ''statistics'' \<Longrightarrow>
   fst (process_query extracted a q) =
     Inr (Success statistics_sql ''Show database statistics'' ''modify''
            (recommendation modify_verdict) (warnings modify_verdict) ''statistics'')
   \<and> startswith (strip (upper statistics_sql)) ''SELECT''
   \<and> \<not> contains_any (strip (upper statistics_sql)) [''DROP'', ''TRUNCATE'']
   \<and> contains statistics_sql ''n_tup_ins AS inserts''
   \<and> contains (strip (upper statistics_sql)) ''INSERT''
   \<and> contains statistics_sql ''n_tup_upd AS updates''
   \<and> contains (strip (upper statistics_sql)) ''UPDATE''
   \<and> contains statistics_sql ''n_tup_del AS deletes''
   \<and> contains (strip (upper statistics_sql)) ''DELETE''"
proof -
  assume s: "type (analyze_intent q) = ''statistics''"
  have x: "explanation (analyze_intent q) = ''Show database statistics''"
    using statistics_explanation s by blast
  have v: "analyze_safety statistics_sql = modify_verdict"
    using statistics_sql_level by (rule level_modify_verdict)
  have r: "fst (process_query extracted a q) =
     Inr (Success statistics_sql ''Show database statistics'' ''modify''
            (recommendation modify_verdict) (warnings modify_verdict) ''statistics'')"
    unfolding process_query_fst generate_sql_statistics[OF s]
    by (simp add: truthy_def statistics_sql_nonempty v x s) (simp add: modify_verdict_def)
  show ?thesis
    using r statistics_sql_upper_select statistics_sql_not_dangerous statistics_sql_insert
      statistics_sql_update statistics_sql_delete
    by (intro conjI) (erule conjunct1 conjunct2 | assumption)+
qed

theorem statistics_classified_modify_witness:
  "type (analyze_intent ''Show table stats'') = ''statistics''
   \<and> fst (process_query (Inr ''Schema unavailable'')
        \<lparr>db_name = ''dvdrental'', schema_context = None\<rparr> ''Show table stats'') =
      Inr (Success statistics_sql ''Show database statistics'' ''modify''
            (recommendation modify_verdict) (warnings modify_verdict) ''statistics'')"
proof -
  have a: "type (analyze_intent ''Show table stats'') = ''statistics''" by code_simp
  from statistics_classified_modify[OF a, of "Inr ''Schema unavailable''" "\<lparr>db_name = ''dvdrental'', schema_context = None\<rparr>"]
  have "fst (process_query (Inr ''Schema unavailable'')
        \<lparr>db_name = ''dvdrental'', schema_context = None\<rparr> ''Show table stats'') =
      Inr (Success statistics_sql ''Show database statistics'' ''modify''
            (recommendation modify_verdict) (warnings modify_verdict) ''statistics'')"
    by (rule conjunct1)
  with a show ?thesis by (intro conjI)
qed

section \<open>Properties of the synthesizer\<close>

lemma split_words_clean:
  "\<forall>c\<in>set acc. \<not> isspace c \<Longrightarrow>
   \<forall>w\<in>set (split_words acc s). w \<noteq> [] \<and> (\<forall>c\<in>set w. \<not> isspace c)"
proof (induction s arbitrary: acc)
  case Nil
  then show ?case by simp
next
  case (Cons a s)
  have e: "\<forall>w\<in>set (split_words [] s). w \<noteq> [] \<and> (\<forall>c\<in>set w. \<not> isspace c)"
    using Cons.IH[of "[]"] by simp
  show ?case
  proof (cases "isspace a")
    case True
    show ?thesis
    proof (cases "acc = []")
      case True
      then have "split_words acc (a # s) = split_words [] s" using \<open>isspace a\<close> by simp
      then show ?thesis using e by simp
    next
      case False
      then have "split_words acc (a # s) = rev acc # split_words [] s"
        using \<open>isspace a\<close> by simp
      moreover have "rev acc \<noteq> [] \<and> (\<forall>c\<in>set (rev acc). \<not> isspace c)"
        using False Cons.prems by simp
      ultimately show ?thesis using e by simp
    qed
  next
    case False
    then have "\<forall>c\<in>set (a # acc). \<not> isspace c" using Cons.prems by simp
    then have "\<forall>w\<in>set (split_words (a # acc) s). w \<noteq> [] \<and> (\<forall>c\<in>set w. \<not> isspace c)"
      by (rule Cons.IH)
    moreover have "split_words acc (a # s) = split_words (a # acc) s" using False by simp
    ultimately show ?thesis by simp
  qed
qed

lemma strip_clean:
  assumes "w \<noteq> []" "\<forall>c\<in>set w. \<not> isspace c"
  shows "strip w = w"
proof -
  have "takeWhile isspace w = []" using assms by (cases w) auto
  then have l: "lstrip w = w" unfolding lstrip_def
    by (metis append_Nil takeWhile_dropWhile_id)
  have "takeWhile isspace (rev w) = []" using assms by (cases "rev w") auto
  then have "dropWhile isspace (rev w) = rev w"
    by (metis append_Nil takeWhile_dropWhile_id)
  then have "rstrip w = w" unfolding rstrip_def by simp
  then show ?thesis using l by (simp add: strip_def)
qed

lemma table_names_loop_nonempty:
  "table_names_loop lines acc = Inr tables \<Longrightarrow> \<forall>t\<in>set acc. t \<noteq> [] \<Longrightarrow> \<forall>t\<in>set tables. t \<noteq> []"
proof (induction lines arbitrary: acc)
  case Nil
  then show ?case by simp
next
  case (Cons line rest)
  show ?case
  proof (cases "contains line ''Table:'' \<and> length (split_str ''Table:'' line) > 1")
    case False
    then have "table_names_loop rest acc = Inr tables" using Cons.prems(1)
      by (auto simp: Let_def split: if_splits)
    then show ?thesis using Cons.IH Cons.prems(2) by blast
  next
    case True
    show ?thesis
    proof (cases "split_ws (split_str ''Table:'' line ! 1)")
      case Nil
      then show ?thesis using True Cons.prems(1) by (simp add: Let_def)
    next
      case (Cons w ws)
      then have r: "table_names_loop rest (acc @ [strip w]) = Inr tables"
        using True Cons.prems(1) by (simp add: Let_def)
      have "w \<in> set (split_words [] (split_str ''Table:'' line ! 1))"
        using Cons by (simp add: split_ws_def)
      then have "w \<noteq> [] \<and> (\<forall>c\<in>set w. \<not> isspace c)"
        using split_words_clean[of "[]"] by auto
      then have "strip w \<noteq> []" using strip_clean by simp
      then have "\<forall>t\<in>set (acc @ [strip w]). t \<noteq> []" using Cons.prems(2) by simp
      then show ?thesis using Cons.IH r by blast
    qed
  qed
qed

lemma table_names_nonempty:
  "extract_table_names_from_schema schema = Inr tables \<Longrightarrow> \<forall>t\<in>set tables. t \<noteq> []"
  unfolding extract_table_names_from_schema_def
  using table_names_loop_nonempty by fastforce

lemma find_in_set: "find P xs = Some x \<Longrightarrow> x \<in> set xs"
  by (induction xs) (auto split: if_splits)

lemma construct_select_query_cases:
  assumes "extract_table_names_from_schema schema = Inr tables"
  shows "construct_select_query q schema =
     (case find (\<lambda>t. contains (lower q) (lower t)) tables of
        None \<Rightarrow> Inr None
      | Some t \<Rightarrow>
          Inr (Some (''SELECT * FROM '' @ t @
            (if contains_any (lower q) [''where'', ''with'', ''having'']
             then ''\<newline>-- Add WHERE clause as needed'' else []) @
            (if \<not> contains (lower q) ''limit'' \<and> \<not> contains (lower q) ''all''
             then ''\<newline>LIMIT 100'' else []) @ '';'')))"
proof (cases "find (\<lambda>t. contains (lower q) (lower t)) tables")
  case None
  then show ?thesis using assms by (simp add: construct_select_query_def Let_def)
next
  case (Some t)
  then have "t \<noteq> []" using table_names_nonempty[OF assms] find_in_set by fastforce
  then show ?thesis using assms Some by (simp add: construct_select_query_def Let_def)
qed

lemma generate_sql_data_query:
  "type i = ''data_query'' \<Longrightarrow> generate_sql q i schema = construct_select_query q schema"
  by (simp add: generate_sql_def Let_def)

text \<open>
  What the synthesizer does for a \<open>data_query\<close> once the table lookup has given a list
  \<open>tables\<close>: if no listed name occurs (lower-cased) in the lower-cased input, it returns
  absent; otherwise the first such name in listing order is selected, and whenever neither
  ``limit'' nor ``all'' occurs in the input the statement begins with \<open>SELECT * FROM\<close>
  and that name and ends with \<open>LIMIT 100;\<close>. The lookup gives the list customers, orders
  on a text whose lines read \<open>Table: customers\<close> and \<open>Table: orders\<close>.
\<close>

lemma data_query_given_tables:
  assumes "type i = ''data_query''" and "extract_table_names_from_schema schema = Inr tables"
  shows "(find (\<lambda>t. contains (lower q) (lower t)) tables = None \<longrightarrow>
            generate_sql q i schema = Inr None)
       \<and> (\<forall>t. find (\<lambda>t. contains (lower q) (lower t)) tables = Some t
              \<and> \<not> contains (lower q) ''limit'' \<and> \<not> contains (lower q) ''all'' \<longrightarrow>
            (\<exists>sql. generate_sql q i schema = Inr (Some sql)
               \<and> prefix (''SELECT * FROM '' @ t) sql \<and> suffix ''\<newline>LIMIT 100;'' sql))
       \<and> (tables = [''customers'', ''orders''] \<and> q = ''show me customers'' \<longrightarrow>
            generate_sql q i schema = Inr (Some ''SELECT * FROM customers\<newline>LIMIT 100;''))"
proof (intro conjI allI impI)
  assume "find (\<lambda>t. contains (lower q) (lower t)) tables = None"
  then show "generate_sql q i schema = Inr None"
    by (simp add: generate_sql_data_query[OF assms(1)] construct_select_query_cases[OF assms(2)])
next
  fix t
  assume a: "find (\<lambda>t. contains (lower q) (lower t)) tables = Some t
     \<and> \<not> contains (lower q) ''limit'' \<and> \<not> contains (lower q) ''all''"
  define w where "w = (if contains_any (lower q) [''where'', ''with'', ''having'']
             then ''\<newline>-- Add WHERE clause as needed'' else [])"
  have "generate_sql q i schema = Inr (Some ((''SELECT * FROM '' @ t) @ w @ ''\<newline>LIMIT 100;''))"
    using a by (simp add: generate_sql_data_query[OF assms(1)] construct_select_query_cases[OF assms(2)] w_def)
  moreover have "prefix (''SELECT * FROM '' @ t) ((''SELECT * FROM '' @ t) @ w @ ''\<newline>LIMIT 100;'')"
    by (rule prefixI) simp
  moreover have "suffix ''\<newline>LIMIT 100;'' ((''SELECT * FROM '' @ t) @ w @ ''\<newline>LIMIT 100;'')"
    by (rule suffixI[of _ "(''SELECT * FROM '' @ t) @ w"]) simp
  ultimately show "\<exists>sql. generate_sql q i schema = Inr (Some sql)
               \<and> prefix (''SELECT * FROM '' @ t) sql \<and> suffix ''\<newline>LIMIT 100;'' sql"
    by blast
next
  assume a: "tables = [''customers'', ''orders''] \<and> q = ''show me customers''"
  have "construct_select_query ''show me customers'' schema = Inr (Some ''SELECT * FROM customers\<newline>LIMIT 100;'')"
  proof -
    have f: "find (\<lambda>t. contains (lower ''show me customers'') (lower t)) [''customers'', ''orders''] = Some ''customers''"
      by code_simp
    have l: "\<not> contains_any (lower ''show me customers'') [''where'', ''with'', ''having'']
        \<and> \<not> contains (lower ''show me customers'') ''limit'' \<and> \<not> contains (lower ''show me customers'') ''all''"
      by code_simp
    show ?thesis
      using assms(2) a f l by (simp add: construct_select_query_cases[of schema "[''customers'', ''orders'']"])
  qed
  then show "generate_sql q i schema = Inr (Some ''SELECT * FROM customers\<newline>LIMIT 100;'')"
    using a by (simp add: generate_sql_data_query[OF assms(1)])
qed

lemma data_query_given_tables_example:
  "type (analyze_intent ''show me customers'') = ''data_query''
   \<and> extract_table_names_from_schema ''Table: customers\<newline>Table: orders'' = Inr [''customers'', ''orders'']
   \<and> generate_sql ''show me customers'' (analyze_intent ''show me customers'')
        ''Table: customers\<newline>Table: orders'' = Inr (Some ''SELECT * FROM customers\<newline>LIMIT 100;'')"
proof -
  have a: "type (analyze_intent ''show me customers'') = ''data_query''" by code_simp
  have b: "extract_table_names_from_schema ''Table: customers\<newline>Table: orders'' = Inr [''customers'', ''orders'']"
    by code_simp
  have "[''customers'', ''orders''] = [''customers'', ''orders''] \<and> ''show me customers'' = ''show me customers'' \<longrightarrow>
            generate_sql ''show me customers'' (analyze_intent ''show me customers'')
        ''Table: customers\<newline>Table: orders'' = Inr (Some ''SELECT * FROM customers\<newline>LIMIT 100;'')"
    using data_query_given_tables[OF a b, of "''show me customers''"] by (elim conjE)
  then have "generate_sql ''show me customers'' (analyze_intent ''show me customers'')
        ''Table: customers\<newline>Table: orders'' = Inr (Some ''SELECT * FROM customers\<newline>LIMIT 100;'')"
    by (elim impE) (intro conjI refl)
  with a b show ?thesis by (intro conjI)
qed

text \<open>
  Claim C5. With a schema summary that lists the tables customers and orders, synthesis
  on ``show me customers'' is to select customers and to give \<open>SELECT * FROM customers\<close>
  ended by \<open>LIMIT 100;\<close>. The code does not get there on a summary of its own. For a
  database with just the tables customers and orders, the compact summary, which is the
  one \<open>process_query\<close> loads, has the three lines below. None of them contains
  \<open>Table:\<close>, the one marker the table lookup knows, so the lookup returns no table (on
  the full summary as well), synthesis returns absent, and the request classified
  \<open>data_query\<close> gets the failure with the suggestions.
\<close>

theorem data_query_on_extracted_summary:
  "get_all_tables lower_case_catalog = [''customers'', ''orders'']
   \<and> split_str ''\<newline>'' (extract_schema_compact ''shop'' lower_case_catalog) =
       [''Database '' @ [CHR 0x27] @ ''shop'' @ [CHR 0x27] @ '' - 2 tables:'',
        ''  '' @ bullet @ '' customers: id:int(32) [PK], email:varchar(255)'',
        ''  '' @ bullet @ '' orders: id:int(32) [PK], customer_id:int(32) [FK'' @ arrow @ ''customers]'']
   \<and> type (analyze_intent ''show me customers'') = ''data_query''
   \<and> extract_table_names_from_schema (extract_schema_compact ''shop'' lower_case_catalog) = Inr []
   \<and> extract_table_names_from_schema (extract_schema ''shop'' lower_case_catalog) = Inr []
   \<and> generate_sql ''show me customers'' (analyze_intent ''show me customers'')
         (extract_schema_compact ''shop'' lower_case_catalog) = Inr None
   \<and> fst (process_query (Inr (extract_schema_compact ''shop'' lower_case_catalog))
            \<lparr>db_name = ''shop'', schema_context = None\<rparr> ''show me customers'')
       = Inr (Failure ''Could not generate SQL query. Please rephrase your request.''
               (get_suggestions ''show me customers''))"
proof (intro conjI)
  show "get_all_tables lower_case_catalog = [''customers'', ''orders'']"
    by (simp add: lower_case_catalog_def)
  show "split_str ''\<newline>'' (extract_schema_compact ''shop'' lower_case_catalog) =
       [''Database '' @ [CHR 0x27] @ ''shop'' @ [CHR 0x27] @ '' - 2 tables:'',
        ''  '' @ bullet @ '' customers: id:int(32) [PK], email:varchar(255)'',
        ''  '' @ bullet @ '' orders: id:int(32) [PK], customer_id:int(32) [FK'' @ arrow @ ''customers]'']"
    by code_simp
  show "type (analyze_intent ''show me customers'') = ''data_query''" by code_simp
  show "extract_table_names_from_schema (extract_schema_compact ''shop'' lower_case_catalog) = Inr []"
    by code_simp
  show "extract_table_names_from_schema (extract_schema ''shop'' lower_case_catalog) = Inr []"
    by code_simp
  show "generate_sql ''show me customers'' (analyze_intent ''show me customers'')
         (extract_schema_compact ''shop'' lower_case_catalog) = Inr None"
    by code_simp
  show "fst (process_query (Inr (extract_schema_compact ''shop'' lower_case_catalog))
            \<lparr>db_name = ''shop'', schema_context = None\<rparr> ''show me customers'')
       = Inr (Failure ''Could not generate SQL query. Please rephrase your request.''
               (get_suggestions ''show me customers''))"
    by code_simp
qed

lemma generate_sql_templates:
  "type i = ''list_tables'' \<Longrightarrow> generate_sql q i schema = Inr (Some list_tables_sql)"
  "type i = ''list_indexes'' \<Longrightarrow> generate_sql q i schema = Inr (Some list_indexes_sql)"
  "type i = ''foreign_keys'' \<Longrightarrow> generate_sql q i schema = Inr (Some foreign_keys_sql)"
  "type i = ''table_sizes'' \<Longrightarrow> generate_sql q i schema = Inr (Some table_sizes_sql)"
  "type i = ''database_size'' \<Longrightarrow> generate_sql q i schema = Inr (Some database_size_sql)"
  "type i = ''row_counts'' \<Longrightarrow> generate_sql q i schema = Inr (Some row_counts_sql)"
  "type i = ''connections'' \<Longrightarrow> generate_sql q i schema = Inr (Some connections_sql)"
  "type i = ''active_queries'' \<Longrightarrow> generate_sql q i schema = Inr (Some active_queries_sql)"
  "type i = ''statistics'' \<Longrightarrow> generate_sql q i schema = Inr (Some statistics_sql)"
  by (simp_all add: generate_sql_def Let_def)

lemma generate_sql_absent:
  "type i = ''modification'' \<Longrightarrow> generate_sql q i schema = Inr None"
  "type i = ''unknown'' \<Longrightarrow> generate_sql q i schema = Inr None"
  by (simp_all add: generate_sql_def Let_def)

lemma templates_nonempty:
  "list_tables_sql \<noteq> []" "list_indexes_sql \<noteq> []" "foreign_keys_sql \<noteq> []"
  "table_sizes_sql \<noteq> []" "database_size_sql \<noteq> []" "row_counts_sql \<noteq> []"
  "connections_sql \<noteq> []" "active_queries_sql \<noteq> []" "statistics_sql \<noteq> []"
  "describe_table_sql t \<noteq> []"
  by (simp_all add: list_tables_sql_def list_indexes_sql_def foreign_keys_sql_def
      table_sizes_sql_def database_size_sql_def row_counts_sql_def connections_sql_def
      active_queries_sql_def statistics_sql_def describe_table_sql_def)

lemma generate_sql_describe:
  "type i = ''describe_table'' \<Longrightarrow>
   generate_sql q i schema =
     (if truthy (table i) then Inr (Some (describe_table_sql (the (table i))))
      else if truthy (extract_table_name (lower q))
        then Inr (Some (describe_table_sql (the (extract_table_name (lower q)))))
      else Inr None)"
  by (auto simp: generate_sql_def Let_def truthy_def split: option.splits)

lemma construct_select_query_None_iff:
  "construct_select_query q schema = Inr None \<longleftrightarrow>
   (\<exists>tables. extract_table_names_from_schema schema = Inr tables
      \<and> find (\<lambda>t. contains (lower q) (lower t)) tables = None)"
proof (cases "extract_table_names_from_schema schema")
  case (Inl e)
  then show ?thesis by (simp add: construct_select_query_def Let_def)
next
  case (Inr tables)
  then show ?thesis
    by (simp add: construct_select_query_cases[OF Inr] split: option.splits)
qed

lemma construct_select_query_nonempty:
  "construct_select_query q schema = Inr (Some sql) \<Longrightarrow> sql \<noteq> []"
proof (cases "extract_table_names_from_schema schema")
  case (Inl e)
  assume "construct_select_query q schema = Inr (Some sql)"
  then show ?thesis using Inl by (simp add: construct_select_query_def Let_def)
next
  case (Inr tables)
  assume "construct_select_query q schema = Inr (Some sql)"
  then show ?thesis
    by (auto simp: construct_select_query_cases[OF Inr] split: option.splits)
qed

text \<open>
  Claim C7, as stated: synthesis returns a non-empty SQL string for every intent kind other
  than \<open>modification\<close>, \<open>unknown\<close> and a \<open>data_query\<close> without a table, including
  \<open>describe_table\<close>. The input ``describe'' is classified \<open>describe_table\<close>, no table
  name can be extracted from it, and synthesis returns absent.
\<close>

theorem synthesis_absent_counterexample:
  "type (analyze_intent ''describe'') = ''describe_table''
   \<and> generate_sql ''describe'' (analyze_intent ''describe'') ''Schema unavailable'' = Inr None"
  by code_simp

text \<open>
  Claim C7, amended. For an intent of one of the thirteen kinds, synthesis returns absent
  exactly for \<open>modification\<close>, for \<open>unknown\<close>, for \<open>describe_table\<close> when neither the
  intent carries a table name nor one can be extracted from the input, and for
  \<open>data_query\<close> when the table lookup succeeds and none of its names occurs in the input;
  a kind other than \<open>data_query\<close> never raises; a returned SQL string is never empty; and
  when synthesis returns absent for a request, the request's result is the failure with
  the suggestions. What the table lookup does on a line that has nothing but white space
  after \<open>Table:\<close> is left open here.
\<close>

theorem synthesis_absent_cases:
  assumes "type i \<in> set intent_kinds"
  shows "(generate_sql q i schema = Inr None \<longleftrightarrow>
            type i = ''modification'' \<or> type i = ''unknown''
          \<or> (type i = ''describe_table'' \<and> \<not> truthy (table i)
               \<and> \<not> truthy (extract_table_name (lower q)))
          \<or> (type i = ''data_query''
               \<and> (\<exists>tables. extract_table_names_from_schema schema = Inr tables
                     \<and> find (\<lambda>t. contains (lower q) (lower t)) tables = None)))
       \<and> (type i \<noteq> ''data_query'' \<longrightarrow> (\<exists>r. generate_sql q i schema = Inr r))
       \<and> (\<forall>sql. generate_sql q i schema = Inr (Some sql) \<longrightarrow> sql \<noteq> [])
       \<and> (generate_sql q' (analyze_intent q') (fst (load_schema_context extracted a)) = Inr None \<longrightarrow>
            fst (process_query extracted a q') =
              Inr (Failure ''Could not generate SQL query. Please rephrase your request.''
                     (get_suggestions q')))"
proof -
  have p: "generate_sql q' (analyze_intent q') (fst (load_schema_context extracted a)) = Inr None \<longrightarrow>
            fst (process_query extracted a q') =
              Inr (Failure ''Could not generate SQL query. Please rephrase your request.''
                     (get_suggestions q'))"
    by (simp add: process_query_fst truthy_def)
  from assms consider
      "type i = ''list_tables''" | "type i = ''describe_table''" | "type i = ''list_indexes''"
    | "type i = ''foreign_keys''" | "type i = ''table_sizes''" | "type i = ''database_size''"
    | "type i = ''row_counts''" | "type i = ''connections''" | "type i = ''active_queries''"
    | "type i = ''statistics''" | "type i = ''data_query''" | "type i = ''modification''"
    | "type i = ''unknown''"
    unfolding intent_kinds_def by auto
  then have "(generate_sql q i schema = Inr None \<longleftrightarrow>
            type i = ''modification'' \<or> type i = ''unknown''
          \<or> (type i = ''describe_table'' \<and> \<not> truthy (table i)
               \<and> \<not> truthy (extract_table_name (lower q)))
          \<or> (type i = ''data_query''
               \<and> (\<exists>tables. extract_table_names_from_schema schema = Inr tables
                     \<and> find (\<lambda>t. contains (lower q) (lower t)) tables = None)))
       \<and> (type i \<noteq> ''data_query'' \<longrightarrow> (\<exists>r. generate_sql q i schema = Inr r))
       \<and> (\<forall>sql. generate_sql q i schema = Inr (Some sql) \<longrightarrow> sql \<noteq> [])"
  proof cases
    case 1 then show ?thesis by (simp add: generate_sql_templates templates_nonempty)
  next
    case 2 then show ?thesis by (auto simp: generate_sql_describe templates_nonempty)
  next
    case 3 then show ?thesis by (simp add: generate_sql_templates templates_nonempty)
  next
    case 4 then show ?thesis by (simp add: generate_sql_templates templates_nonempty)
  next
    case 5 then show ?thesis by (simp add: generate_sql_templates templates_nonempty)
  next
    case 6 then show ?thesis by (simp add: generate_sql_templates templates_nonempty)
  next
    case 7 then show ?thesis by (simp add: generate_sql_templates templates_nonempty)
  next
    case 8 then show ?thesis by (simp add: generate_sql_templates templates_nonempty)
  next
    case 9 then show ?thesis by (simp add: generate_sql_templates templates_nonempty)
  next
    case 10 then show ?thesis by (simp add: generate_sql_templates templates_nonempty)
  next
    case 11 then show ?thesis
      using construct_select_query_None_iff[of q schema] construct_select_query_nonempty[of q schema]
      by (simp add: generate_sql_data_query)
  next
    case 12 then show ?thesis by (simp add: generate_sql_absent)
  next
    case 13 then show ?thesis by (simp add: generate_sql_absent)
  qed
  then show ?thesis using p by blast
qed

theorem synthesis_absent_cases_witness:
  "type (analyze_intent ''describe'') \<in> set intent_kinds
   \<and> type (analyze_intent ''describe'') = ''describe_table''
   \<and> \<not> truthy (table (analyze_intent ''describe''))
   \<and> \<not> truthy (extract_table_name (lower ''describe''))
   \<and> generate_sql ''describe'' (analyze_intent ''describe'') ''Schema unavailable'' = Inr None
   \<and> fst (process_query (Inr ''Schema unavailable'') \<lparr>db_name = ''dvdrental'', schema_context = None\<rparr> ''describe'') =
              Inr (Failure ''Could not generate SQL query. Please rephrase your request.''
                     (get_suggestions ''describe''))"
proof -
  have k: "type (analyze_intent ''describe'') \<in> set intent_kinds" by (rule type_in_kinds)
  have d: "type (analyze_intent ''describe'') = ''describe_table''
          \<and> \<not> truthy (table (analyze_intent ''describe''))
          \<and> \<not> truthy (extract_table_name (lower ''describe''))"
    by code_simp
  have l: "fst (load_schema_context (Inr ''Schema unavailable'') \<lparr>db_name = ''dvdrental'', schema_context = None\<rparr>)
      = ''Schema unavailable''"
    by (simp add: load_schema_context_def Let_def)
  note t = synthesis_absent_cases[OF k, of "''describe''" "''Schema unavailable''" "''describe''"
      "Inr ''Schema unavailable''" "\<lparr>db_name = ''dvdrental'', schema_context = None\<rparr>"]
  have g: "generate_sql ''describe'' (analyze_intent ''describe'') ''Schema unavailable'' = Inr None"
    using t d by blast
  then have "fst (process_query (Inr ''Schema unavailable'') \<lparr>db_name = ''dvdrental'', schema_context = None\<rparr> ''describe'') =
              Inr (Failure ''Could not generate SQL query. Please rephrase your request.''
                     (get_suggestions ''describe''))"
    using t unfolding l by blast
  then show ?thesis using k d g by blast
qed

section \<open>Properties of the execution endpoints\<close>

text \<open>
  Claim C1, as stated: every execution step refuses to run a statement unless the caller
  passes a confirmation flag. The request of \<open>/admin/smart/execute\<close> has no such flag, and
  the endpoint runs what it is given: the statement below reaches the database.
\<close>

theorem execution_unconfirmed_counterexample:
  "smart_admin_execute logging_handler
     \<lparr>smart_db_name = ''dvdrental'', smart_sql = ''DROP TABLE actor;''\<rparr> []
   = (Result (), [''DROP TABLE actor;''])"
  by (simp add: smart_admin_execute_def agent_execute_sql_def logging_handler_def)

text \<open>
  Claim C1, amended. \<open>/query/execute\<close> refuses with status 400, and the database stays as
  it was, unless the request's confirmation flag is set; with the flag set the statement
  goes to the executor (once the schema is at hand). \<open>/admin/smart/execute\<close> takes no
  confirmation flag and hands every statement to the database handler.
\<close>

theorem execution_gate:
  "(\<not> confirm request \<longrightarrow>
      execute_sql get_schema executor request db =
        (HTTPException 400 ''Execution requires confirmation'', db))
   \<and> (snd (execute_sql get_schema executor request db) \<noteq> db \<longrightarrow> confirm request)
   \<and> (confirm request \<longrightarrow>
      execute_sql get_schema executor request db =
        (case get_schema (req_db_name request) of
           Inl e \<Rightarrow> (ErrorResponse (str_error e), db)
         | Inr schema \<Rightarrow>
             (case executor (req_db_name request) schema (req_sql request) db of
                (Inl e, db') \<Rightarrow> (ErrorResponse (str_error e), db')
              | (Inr result, db') \<Rightarrow> (Result result, db'))))
   \<and> smart_admin_execute handler smart_request db =
        (case handler (smart_db_name smart_request) (smart_sql smart_request) db of
           (Inl e, db') \<Rightarrow> (ErrorResponse (''Failed to execute SQL: '' @ str_error e), db')
         | (Inr result, db') \<Rightarrow> (Result result, db'))"
  by (simp add: execute_sql_def smart_admin_execute_def agent_execute_sql_def Let_def)

theorem execution_gate_witness:
  "execute_sql (\<lambda>dbn. Inr ''Schema unavailable'') logging_executor
      \<lparr>req_db_name = ''dvdrental'', req_sql = ''DROP TABLE actor;'', confirm = False\<rparr> []
     = (HTTPException 400 ''Execution requires confirmation'', [])
   \<and> execute_sql (\<lambda>dbn. Inr ''Schema unavailable'') logging_executor
      \<lparr>req_db_name = ''dvdrental'', req_sql = ''DROP TABLE actor;'', confirm = True\<rparr> []
     = (Result (), [''DROP TABLE actor;''])"
proof -
  have a: "execute_sql (\<lambda>dbn. Inr ''Schema unavailable'') logging_executor
      \<lparr>req_db_name = ''dvdrental'', req_sql = ''DROP TABLE actor;'', confirm = False\<rparr> []
     = (HTTPException 400 ''Execution requires confirmation'', [])"
    using execution_gate[where request = "\<lparr>req_db_name = ''dvdrental'', req_sql = ''DROP TABLE actor;'', confirm = False\<rparr>"
        and get_schema = "\<lambda>dbn. Inr ''Schema unavailable''" and executor = logging_executor
        and db = "[]" and handler = logging_handler
        and smart_request = "\<lparr>smart_db_name = ''dvdrental'', smart_sql = ''DROP TABLE actor;''\<rparr>"]
    by simp
  have b: "execute_sql (\<lambda>dbn. Inr ''Schema unavailable'') logging_executor
      \<lparr>req_db_name = ''dvdrental'', req_sql = ''DROP TABLE actor;'', confirm = True\<rparr> []
     = (Result (), [''DROP TABLE actor;''])"
    using execution_gate[where request = "\<lparr>req_db_name = ''dvdrental'', req_sql = ''DROP TABLE actor;'', confirm = True\<rparr>"
        and get_schema = "\<lambda>dbn. Inr ''Schema unavailable''" and executor = logging_executor
        and db = "[]" and handler = logging_handler
        and smart_request = "\<lparr>smart_db_name = ''dvdrental'', smart_sql = ''DROP TABLE actor;''\<rparr>"]
    by (simp add: logging_executor_def)
  show ?thesis using a b by (intro conjI)
qed

section \<open>Properties of the table lookup on extracted summaries\<close>

lemma no_Ta_append: "no_Ta x \<Longrightarrow> no_Ta y \<Longrightarrow> no_Ta (x @ y)"
proof (induction x rule: no_Ta.induct)
  case 1
  then show ?case by simp
next
  case (2 c)
  then show ?case by (cases y) auto
next
  case (3 c d r)
  then show ?case by simp
qed

lemma no_T_no_Ta: "no_T s \<Longrightarrow> no_Ta s"
  unfolding no_T_def by (induction s rule: no_Ta.induct) auto

lemma no_Ta_occurrence: "\<not> no_Ta (p @ CHR ''T'' # CHR ''a'' # q)"
  by (induction p rule: no_Ta.induct) auto

lemma no_Ta_line:
  assumes "no_Ta s" "s = p @ l @ q"
  shows "\<not> contains l ''Table:''"
proof
  assume "contains l ''Table:''"
  then obtain p' q' where "l = p' @ ''Table:'' @ q'" by (auto simp: contains_iff)
  then have "s = (p @ p') @ CHR ''T'' # CHR ''a'' # (''ble:'' @ q' @ q)" using assms(2) by simp
  then show False using assms(1) no_Ta_occurrence by metis
qed

lemma split_skip_sublist:
  "k = 0 \<or> acc = [] \<Longrightarrow> l \<in> set (split_skip sep k acc s) \<Longrightarrow> \<exists>p q. rev acc @ s = p @ l @ q"
proof (induction sep k acc s rule: split_skip.induct)
  case (1 sep k acc)
  then have "l = rev acc" by simp
  then have "rev acc @ [] = [] @ l @ []" by simp
  then show ?case by blast
next
  case (2 sep k acc c cs)
  then have "acc = []" by simp
  then have "l \<in> set (split_skip sep k [] cs)" using 2 by simp
  then obtain p q where "cs = p @ l @ q" using 2 \<open>acc = []\<close> by fastforce
  then have "rev acc @ c # cs = (c # p) @ l @ q" using \<open>acc = []\<close> by simp
  then show ?case by blast
next
  case (3 sep acc c cs)
  show ?case
  proof (cases "startswith (c # cs) sep")
    case True
    then consider "l = rev acc" | "l \<in> set (split_skip sep (length sep - 1) [] cs)"
      using 3 by auto
    then show ?thesis
    proof cases
      case 1
      then have "rev acc @ c # cs = [] @ l @ (c # cs)" by simp
      then show ?thesis by blast
    next
      case 2
      then obtain p q where "rev [] @ cs = p @ l @ q" using 3 True by blast
      then have "rev acc @ c # cs = (rev acc @ c # p) @ l @ q" by simp
      then show ?thesis by blast
    qed
  next
    case False
    then have "l \<in> set (split_skip sep 0 (c # acc) cs)" using 3 by simp
    then obtain p q where "rev (c # acc) @ cs = p @ l @ q" using 3 False by blast
    then have "rev acc @ c # cs = p @ l @ q" by simp
    then show ?thesis by blast
  qed
qed

lemma split_str_sublist: "l \<in> set (split_str sep s) \<Longrightarrow> \<exists>p q. s = p @ l @ q"
  using split_skip_sublist[of 0 "[]" l sep s] by (simp add: split_str_def)

lemma table_names_loop_no_match:
  "\<forall>l\<in>set lines. \<not> contains l ''Table:'' \<Longrightarrow> table_names_loop lines acc = Inr acc"
  by (induction lines) simp_all

lemma no_Ta_lookup_empty:
  assumes "no_Ta schema"
  shows "extract_table_names_from_schema schema = Inr []"
proof -
  have "\<forall>l\<in>set (split_str ''\<newline>'' schema). \<not> contains l ''Table:''"
    using split_str_sublist no_Ta_line[OF assms] by blast
  then show ?thesis
    unfolding extract_table_names_from_schema_def by (rule table_names_loop_no_match)
qed

lemma no_T_append [simp]: "no_T (a @ b) \<longleftrightarrow> no_T a \<and> no_T b"
  by (auto simp: no_T_def)

lemma no_T_Nil [simp]: "no_T []"
  by (simp add: no_T_def)

lemma no_T_Cons [simp]: "no_T (c # s) \<longleftrightarrow> c \<noteq> CHR ''T'' \<and> no_T s"
  by (auto simp: no_T_def)

lemma digit_not_T: "d < 10 \<Longrightarrow> char_of (48 + d :: nat) \<noteq> CHR ''T''"
proof
  assume d: "d < 10" and "char_of (48 + d) = CHR ''T''"
  then have "(of_char (char_of (48 + d)) :: nat) = of_char (CHR ''T'')" by simp
  then have "(48 + d) mod 256 = 84" by simp
  then show False using d by simp
qed

lemma no_T_str_nat: "no_T (str_nat n)"
proof (induction n rule: str_nat.induct)
  case (1 n)
  show ?case
  proof (cases "n < 10")
    case True
    then show ?thesis using digit_not_T[of n] by (simp add: str_nat.simps[of n] no_T_def)
  next
    case False
    then have "no_T (str_nat (n div 10))" using 1 by simp
    moreover have "no_T [char_of (48 + n mod 10)]"
      using digit_not_T[of "n mod 10"] by (simp add: no_T_def)
    ultimately show ?thesis using False by (simp add: str_nat.simps[of n])
  qed
qed

lemma no_T_str_int: "no_T (str_int i)"
  using no_T_str_nat by (simp add: str_int_def)

lemma set_group3: "set (group3 r) \<subseteq> insert (CHR '','') (set r)"
  by (induction r rule: group3.induct) auto

lemma no_T_group3: "no_T r \<Longrightarrow> no_T (group3 r)"
  using set_group3[of r] by (auto simp: no_T_def)

lemma no_T_rev [simp]: "no_T (rev s) \<longleftrightarrow> no_T s"
  by (simp add: no_T_def)

lemma no_T_fmt_thousands: "no_T (fmt_thousands i)"
proof -
  have "no_T (rev (group3 (rev (str_nat n))))" for n
    using no_T_group3[of "rev (str_nat n)"] no_T_str_nat[of n] by simp
  then show ?thesis by (simp add: fmt_thousands_def)
qed

lemma no_T_join: "no_T sep \<Longrightarrow> \<forall>x\<in>set xs. no_T x \<Longrightarrow> no_T (join sep xs)"
  by (induction sep xs rule: join.induct) simp_all

lemma no_Ta_join: "no_Ta sep \<Longrightarrow> \<forall>x\<in>set xs. no_Ta x \<Longrightarrow> no_Ta (join sep xs)"
  by (induction sep xs rule: join.induct) (simp_all add: no_Ta_append)

lemma type_mapping_no_T: "map_of type_mapping k = Some v \<Longrightarrow> no_T v"
  by (auto simp: type_mapping_def no_T_def split: if_splits)

lemma no_T_format_data_type:
  assumes "no_T (data_type c)"
  shows "no_T (format_data_type c)"
proof -
  have "no_T (case map_of type_mapping (data_type c) of None \<Rightarrow> data_type c | Some t \<Rightarrow> t)"
    using assms type_mapping_no_T by (auto split: option.splits)
  then show ?thesis
    by (simp add: format_data_type_def Let_def no_T_str_int)
qed

lemma no_T_first_part: "no_T s \<Longrightarrow> no_T (first_part sep s)"
proof (cases "split_str sep s")
  case Nil
  then show ?thesis by (simp add: first_part_def)
next
  case (Cons p ps)
  assume "no_T s"
  have "p \<in> set (split_str sep s)" using Cons by simp
  then obtain a b where "s = a @ p @ b" using split_str_sublist by blast
  then have "no_T p" using \<open>no_T s\<close> by simp
  then show ?thesis using Cons by (simp add: first_part_def)
qed

lemma enrich_references:
  "is_foreign_key (enrich pk fk uq col) \<Longrightarrow> references (enrich pk fk uq col) \<noteq> None"
  by (auto simp: enrich_def split: option.splits)

lemma details_references:
  "c \<in> set (columns (get_table_details db tbl)) \<Longrightarrow> is_foreign_key c \<Longrightarrow> references c \<noteq> None"
proof -
  assume "c \<in> set (columns (get_table_details db tbl))" and f: "is_foreign_key c"
  then obtain x where "c = enrich (get_primary_keys db tbl) (get_foreign_keys db tbl)
      (get_unique_constraints db tbl) x"
    by (auto simp: get_table_details_def Let_def)
  then show ?thesis using f enrich_references by blast
qed

lemma no_T_compact_column:
  assumes "column_no_T c" "is_foreign_key c \<Longrightarrow> references c \<noteq> None"
  shows "no_T (compact_column c)"
proof -
  have d: "no_T (format_data_type c)" using assms(1) by (simp add: column_no_T_def no_T_format_data_type)
  have r: "is_foreign_key c \<Longrightarrow> no_T (first_part ''.'' (the (references c)))"
    using assms by (auto simp: column_no_T_def intro: no_T_first_part)
  have f: "no_T arrow"
    by (simp add: arrow_def)
  have m: "no_T (join '','' ((if is_primary_key c then [''PK''] else []) @
                    (if is_foreign_key c
                     then [''FK'' @ arrow @ first_part ''.'' (the (references c))] else [])))"
    using r f by (intro no_T_join) auto
  show ?thesis
    using assms(1) d m f by (simp add: compact_column_def Let_def column_no_T_def)
qed

lemma no_T_compact_table_line:
  assumes "no_T tbl" "list_all column_no_T (columns (get_table_details db tbl))"
  shows "no_T (compact_table_line db tbl)"
proof -
  have "\<forall>x\<in>set (map compact_column (columns (get_table_details db tbl))). no_T x"
    using assms(2) details_references[of _ db tbl] no_T_compact_column
    by (auto simp: list_all_iff)
  then have "no_T (join '', '' (map compact_column (columns (get_table_details db tbl))))"
    by (intro no_T_join) simp_all
  moreover have "no_T bullet"
    by (simp add: bullet_def)
  ultimately show ?thesis using assms(1) by (simp add: compact_table_line_def Let_def)
qed

lemma no_T_extract_schema_compact:
  assumes "catalog_no_T dbn db"
  shows "no_T (extract_schema_compact dbn db)"
proof -
  have d: "no_T dbn" using assms by (simp add: catalog_no_T_def)
  have f: "no_T ''\<newline>''"
    by simp
  have l: "\<forall>x\<in>set (map (compact_table_line db) (get_all_tables db)). no_T x"
    using assms no_T_compact_table_line by (auto simp: catalog_no_T_def list_all_iff)
  have h: "no_T (''Database '' @ [CHR 0x27] @ dbn @ [CHR 0x27] @ '' - '' @
              str_nat (length (get_all_tables db)) @ '' tables:'')"
    using d f no_T_str_nat by simp
  have "no_T (join ''\<newline>''
        ((''Database '' @ [CHR 0x27] @ dbn @ [CHR 0x27] @ '' - '' @
              str_nat (length (get_all_tables db)) @ '' tables:'')
         # map (compact_table_line db) (get_all_tables db)))"
    using h l f by (intro no_T_join) auto
  then show ?thesis using d f by (simp add: extract_schema_compact_def Let_def)
qed

lemma no_Ta_Cons_other: "c \<noteq> CHR ''T'' \<Longrightarrow> no_Ta (c # s) \<longleftrightarrow> no_Ta s"
  by (cases s) auto

lemma no_Ta_Cons_T: "no_Ta (CHR ''T'' # s) \<longleftrightarrow> s \<noteq> [] \<and> hd s \<noteq> CHR ''a'' \<and> no_Ta s"
  by (cases s) auto

lemma no_Ta_replicate: "c \<noteq> CHR ''T'' \<Longrightarrow> no_Ta (replicate n c)"
  by (rule no_T_no_Ta) (auto simp: no_T_def)

lemma no_T_full_constraints:
  assumes "column_no_T c" "is_foreign_key c \<Longrightarrow> references c \<noteq> None"
  shows "no_T (join '', ''
            ((if is_primary_key c then [''PRIMARY KEY''] else []) @
             (if is_foreign_key c then [''FK '' @ arrow @ '' '' @ the (references c)] else []) @
             (if is_unique c \<and> \<not> is_primary_key c then [''UNIQUE''] else [])))"
proof -
  have r: "is_foreign_key c \<Longrightarrow> no_T (the (references c))"
    using assms by (auto simp: column_no_T_def)
  have "no_T arrow" by (simp add: arrow_def)
  then show ?thesis using r by (intro no_T_join) auto
qed

lemma no_Ta_full_column_line:
  assumes "column_no_T c" "is_foreign_key c \<Longrightarrow> references c \<noteq> None"
  shows "no_Ta (full_column_line c)"
proof -
  define cs where "cs = (if is_primary_key c then [''PRIMARY KEY''] else []) @
             (if is_foreign_key c then [''FK '' @ arrow @ '' '' @ the (references c)] else []) @
             (if is_unique c \<and> \<not> is_primary_key c then [''UNIQUE''] else [])"
  define K where "K = (if cs \<noteq> [] then '' ['' @ join '', '' cs @ '']'' else [])"
  define F where "F = (if truthy (col_default c) then '' DEFAULT '' @ the (col_default c) else [])"
  define U where "U = (if nullable c then ''NULL'' else ''NOT NULL'')"
  have e: "full_column_line c =
      ''  '' @ bullet @ '' '' @ name c @ '': '' @ format_data_type c @ '' '' @ U @ F @ K"
    by (simp add: full_column_line_def Let_def cs_def K_def F_def U_def)
  have n: "no_Ta (name c)" and d: "no_Ta (format_data_type c)"
    using assms(1) by (simp_all add: column_no_T_def no_T_format_data_type no_T_no_Ta)
  have b: "no_Ta bullet" by (simp add: bullet_def)
  have u: "no_Ta U" by (simp add: U_def)
  have "truthy (col_default c) \<Longrightarrow> no_Ta (the (col_default c))"
    using assms(1) by (auto simp: column_no_T_def truthy_def no_T_no_Ta split: option.splits)
  then have f: "no_Ta F"
    by (simp add: F_def no_Ta_Cons_other no_Ta_Cons_T)
  have j: "no_Ta (join '', '' cs)"
    unfolding cs_def using no_T_full_constraints[OF assms] by (rule no_T_no_Ta)
  have "no_Ta ('' ['' @ join '', '' cs @ '']'')"
    by (intro no_Ta_append j) simp_all
  then have k: "no_Ta K" unfolding K_def by (cases "cs = []") simp_all
  show ?thesis
    unfolding e by (intro no_Ta_append n d b u f k) simp_all
qed

lemma no_Ta_full_index_line:
  assumes "index_no_T idx"
  shows "no_Ta (full_index_line idx)"
proof -
  have "no_T (join '', '' (idx_columns idx))"
    using assms by (intro no_T_join) (auto simp: index_no_T_def list_all_iff)
  moreover have "no_T bullet" by (simp add: bullet_def)
  ultimately have "no_T (full_index_line idx)"
    using assms by (simp add: full_index_line_def Let_def index_no_T_def)
  then show ?thesis by (rule no_T_no_Ta)
qed

lemma no_Ta_full_table_lines:
  assumes "no_T tbl" "list_all column_no_T (columns (get_table_details db tbl))"
    "list_all index_no_T (indexes (get_table_details db tbl))"
  shows "\<forall>l\<in>set (full_table_lines db tbl). no_Ta l"
proof -
  have t: "no_Ta (''TABLE: '' @ tbl)"
    using assms(1) by (simp add: no_Ta_Cons_other no_Ta_Cons_T no_T_no_Ta)
  have r: "no_Ta (''Rows: ~'' @ fmt_thousands (row_count (get_table_details db tbl)))"
    by (rule no_T_no_Ta) (simp add: no_T_fmt_thousands)
  have c: "\<forall>l\<in>set (map full_column_line (columns (get_table_details db tbl))). no_Ta l"
    using assms(2) details_references[of _ db tbl] no_Ta_full_column_line
    by (auto simp: list_all_iff)
  have i: "\<forall>l\<in>set (map full_index_line
      (filter (\<lambda>idx. \<not> idx_primary idx) (indexes (get_table_details db tbl)))). no_Ta l"
    using assms(3) no_Ta_full_index_line by (auto simp: list_all_iff)
  have f: "no_Ta (replicate 80 CHR ''-'')" "no_Ta ''COLUMNS:''" "no_Ta ''INDEXES:''" "no_Ta []"
    by (simp_all add: no_Ta_replicate)
  show ?thesis
    unfolding full_table_lines_def Let_def
    using t r c i f by (auto simp del: no_Ta.simps)
qed

lemma no_Ta_extract_schema:
  assumes "catalog_no_T dbn db"
  shows "no_Ta (extract_schema dbn db)"
proof (cases "get_all_tables db = []")
  case True
  have "no_T (''Database '' @ [CHR 0x27] @ dbn @ [CHR 0x27] @ '': No tables found in public schema.'')"
    using assms by (simp add: catalog_no_T_def)
  then show ?thesis using True by (simp add: extract_schema_def no_T_no_Ta)
next
  case False
  have d: "no_Ta dbn" using assms by (simp add: catalog_no_T_def no_T_no_Ta)
  have h1: "no_Ta (''DATABASE: '' @ [CHR 0x27] @ dbn @ [CHR 0x27])"
    using d by (intro no_Ta_append) simp_all
  have h2: "no_Ta (''TABLES: '' @ str_nat (length (get_all_tables db)))"
    by (intro no_Ta_append) (simp_all add: no_T_no_Ta no_T_str_nat)
  have h3: "no_Ta (replicate 80 CHR ''='')" "no_Ta []"
    by (simp_all add: no_Ta_replicate)
  have t: "\<forall>l\<in>set (concat (map (full_table_lines db) (get_all_tables db))). no_Ta l"
    using assms no_Ta_full_table_lines by (auto simp: catalog_no_T_def list_all_iff)
  have "no_Ta (join ''\<newline>''
        ([''DATABASE: '' @ [CHR 0x27] @ dbn @ [CHR 0x27],
          ''TABLES: '' @ str_nat (length (get_all_tables db)),
          replicate 80 CHR ''='',
          []] @
         concat (map (full_table_lines db) (get_all_tables db))))"
  proof (rule no_Ta_join)
    show "no_Ta ''\<newline>''" by simp
    show "\<forall>x\<in>set ([''DATABASE: '' @ [CHR 0x27] @ dbn @ [CHR 0x27],
          ''TABLES: '' @ str_nat (length (get_all_tables db)),
          replicate 80 CHR ''='',
          []] @
         concat (map (full_table_lines db) (get_all_tables db))). no_Ta x"
      using h1 h2 h3 t by (auto simp del: no_Ta.simps)
  qed
  then show ?thesis using False by (simp add: extract_schema_def Let_def del: no_Ta.simps)
qed

text \<open>
  On a catalogue without the capital letter T no line of either summary contains
  \<open>Table:\<close>: the lookup returns no table there, and every input classified
  \<open>data_query\<close>, processed by a fresh agent over the compact summary, gets the failure
  with the suggestions. The condition is sufficient, not necessary.
\<close>

lemma lookup_empty_without_capital_T:
  assumes "catalog_no_T dbn db"
  shows "extract_table_names_from_schema (extract_schema_compact dbn db) = Inr []
       \<and> extract_table_names_from_schema (extract_schema dbn db) = Inr []
       \<and> (type (analyze_intent q) = ''data_query'' \<longrightarrow>
            fst (process_query (Inr (extract_schema_compact dbn db))
                   \<lparr>db_name = dbn, schema_context = None\<rparr> q)
              = Inr (Failure ''Could not generate SQL query. Please rephrase your request.''
                      (get_suggestions q)))"
proof (intro conjI impI)
  show c: "extract_table_names_from_schema (extract_schema_compact dbn db) = Inr []"
    using assms by (intro no_Ta_lookup_empty no_T_no_Ta no_T_extract_schema_compact)
  show "extract_table_names_from_schema (extract_schema dbn db) = Inr []"
    using assms by (intro no_Ta_lookup_empty no_Ta_extract_schema)
  assume d: "type (analyze_intent q) = ''data_query''"
  have l: "fst (load_schema_context (Inr (extract_schema_compact dbn db))
                   \<lparr>db_name = dbn, schema_context = None\<rparr>) = extract_schema_compact dbn db"
    by (simp add: load_schema_context_def Let_def)
  have "generate_sql q (analyze_intent q) (extract_schema_compact dbn db) = Inr None"
    using construct_select_query_cases[OF c, of q] by (simp add: generate_sql_data_query[OF d])
  then show "fst (process_query (Inr (extract_schema_compact dbn db))
                   \<lparr>db_name = dbn, schema_context = None\<rparr> q)
              = Inr (Failure ''Could not generate SQL query. Please rephrase your request.''
                      (get_suggestions q))"
    by (simp add: process_query_fst l truthy_def)
qed

text \<open>
  Claim C4. On every summary that the extractors produce the table lookup is to return
  the empty list, so that every \<open>data_query\<close> request fails. For the catalogue whose
  table \<open>orders\<close> has a column \<open>parentTable\<close> of type \<open>text\<close>, the compact summary has
  the line \<open>orders: parentTable:text\<close> (after the bullet), which contains \<open>Table:\<close>.
  There the lookup returns the column's type \<open>text\<close> as a table name, and the request
  ``show me text'' succeeds with \<open>SELECT * FROM text\<close>.
\<close>

theorem lookup_on_camel_case_column:
  "extract_table_names_from_schema (extract_schema_compact ''shop'' camel_case_catalog) = Inr [''text'']
   \<and> type (analyze_intent ''show me text'') = ''data_query''
   \<and> fst (process_query (Inr (extract_schema_compact ''shop'' camel_case_catalog))
          \<lparr>db_name = ''shop'', schema_context = None\<rparr> ''show me text'')
       = Inr (Success ''SELECT * FROM text\<newline>LIMIT 100;'' ''Retrieve data from database'' ''safe''
               (recommendation safe_verdict) None ''data_query'')"
  by code_simp

end
